theory Spec2Isabelle
  imports Complex_Main
begin

section \<open>Olio ray tracer: geometry, hit records and local shading\<close>

text \<open>
  The renderer computes with \<^verbatim>\<open>Real\<close> (a C++ floating-point type) and with Eigen's
  \<^verbatim>\<open>Vec3r\<close>. The embedding idealises \<^verbatim>\<open>Real\<close> as \<^typ>\<open>real\<close>: every function below
  computes what the C++ computes when no rounding occurs and no operand is infinite or
  NaN. Where the C++ would divide by zero (a ray of zero direction, a degenerate
  triangle, a light placed at the hit point) the C++ result is a non-finite float, while
  division in HOL returns 0: the definitions say nothing about such inputs. The theorems
  that draw on the value of such a quotient (both roots lie on the sphere, the solver
  solves the system, a normal has length 1) carry a hypothesis excluding it.
\<close>

subsection \<open>Vectors (Eigen's \<^verbatim>\<open>Vec3r\<close>)\<close>

datatype vec3 = Vec3r (vx: real) (vy: real) (vz: real)

fun vadd :: "vec3 \<Rightarrow> vec3 \<Rightarrow> vec3" where
  "vadd (Vec3r a b c) (Vec3r d e f) = Vec3r (a + d) (b + e) (c + f)"

fun vsub :: "vec3 \<Rightarrow> vec3 \<Rightarrow> vec3" where
  "vsub (Vec3r a b c) (Vec3r d e f) = Vec3r (a - d) (b - e) (c - f)"

fun smul :: "real \<Rightarrow> vec3 \<Rightarrow> vec3" where
  "smul k (Vec3r a b c) = Vec3r (k * a) (k * b) (k * c)"

fun sdiv :: "vec3 \<Rightarrow> real \<Rightarrow> vec3" where
  "sdiv (Vec3r a b c) k = Vec3r (a / k) (b / k) (c / k)"

fun dot :: "vec3 \<Rightarrow> vec3 \<Rightarrow> real" where
  "dot (Vec3r a b c) (Vec3r d e f) = a * d + b * e + c * f"

fun cross :: "vec3 \<Rightarrow> vec3 \<Rightarrow> vec3" where
  "cross (Vec3r a b c) (Vec3r d e f) =
     Vec3r (b * f - c * e) (c * d - a * f) (a * e - b * d)"

definition squaredNorm :: "vec3 \<Rightarrow> real" where
  "squaredNorm v = dot v v"

definition norm3 :: "vec3 \<Rightarrow> real" where
  "norm3 v = sqrt (squaredNorm v)"

text \<open>
  Eigen's \<^verbatim>\<open>normalized()\<close> divides by the norm when the squared norm is positive and
  returns the vector as it is otherwise.
\<close>

definition normalized :: "vec3 \<Rightarrow> vec3" where
  "normalized v = (if squaredNorm v > 0 then sdiv v (sqrt (squaredNorm v)) else v)"

text \<open>The component-wise product written out in both \<^verbatim>\<open>Illuminate\<close> methods.\<close>

fun cwise :: "vec3 \<Rightarrow> vec3 \<Rightarrow> vec3" where
  "cwise (Vec3r a b c) (Vec3r d e f) = Vec3r (a * d) (b * e) (c * f)"

definition zero3 :: vec3 where
  "zero3 = Vec3r 0 0 0"

subsection \<open>Rays\<close>

record ray =
  ray_origin :: vec3
  ray_dir :: vec3

text \<open>\<^verbatim>\<open>Ray::Ray\<close> (ray.cc): the direction is divided by its norm.\<close>

definition Ray :: "vec3 \<Rightarrow> vec3 \<Rightarrow> ray" where
  "Ray origin dir = \<lparr>ray_origin = origin, ray_dir = sdiv dir (norm3 dir)\<rparr>"

text \<open>
  Modelled from the spec: \<^verbatim>\<open>Ray::At\<close> is declared in core/ray.h, which is not among the
  sources. The spec: "At(t) returns origin + t\<cdot>direction".
\<close>

definition At :: "ray \<Rightarrow> real \<Rightarrow> vec3" where
  "At r t = vadd (ray_origin r) (smul t (ray_dir r))"

subsection \<open>Materials\<close>

record phong =
  mat_name :: string
  mat_ambient :: vec3
  mat_diffuse :: vec3
  mat_specular :: vec3
  mat_shininess :: real
  mat_mirror :: vec3

text \<open>
  A surface holds a \<^verbatim>\<open>Material::Ptr\<close>. The shading code downcasts it with
  \<^verbatim>\<open>dynamic_pointer_cast<PhongMaterial>\<close>: the pointer is null (\<open>None\<close> below), or it
  points to a material that is not a \<^verbatim>\<open>PhongMaterial\<close>, or to a \<^verbatim>\<open>PhongMaterial\<close>.
\<close>

datatype material = OtherMaterial string | PhongMaterial phong

text \<open>\<^verbatim>\<open>PhongMaterial::PhongMaterial\<close> (six arguments): an empty name becomes "PhongMaterial".\<close>

definition PhongMaterial_new ::
  "vec3 \<Rightarrow> vec3 \<Rightarrow> vec3 \<Rightarrow> real \<Rightarrow> vec3 \<Rightarrow> string \<Rightarrow> phong" where
  "PhongMaterial_new ambient diffuse specular shininess mirror name =
     \<lparr>mat_name = (if length name \<noteq> 0 then name else ''PhongMaterial''),
      mat_ambient = ambient, mat_diffuse = diffuse, mat_specular = specular,
      mat_shininess = shininess, mat_mirror = mirror\<rparr>"

text \<open>
  \<^verbatim>\<open>PhongMaterial::PhongMaterial\<close> (one argument): the same rule for the name, and the
  diffuse colour set to zero. The other members keep the initial values that
  core/material/phong_material.h gives them; the header is not among the sources, and the
  values are the fields of the parameter \<open>members\<close>.
\<close>

definition PhongMaterial_named :: "string \<Rightarrow> phong \<Rightarrow> phong" where
  "PhongMaterial_named name members =
     members\<lparr>mat_name := (if length name \<noteq> 0 then name else ''PhongMaterial''),
             mat_diffuse := Vec3r 0 0 0\<rparr>"

text \<open>The downcast to \<^verbatim>\<open>PhongMaterial\<close>: null for a null pointer and for any other material.\<close>

fun as_phong :: "material option \<Rightarrow> phong option" where
  "as_phong None = None"
| "as_phong (Some (OtherMaterial n)) = None"
| "as_phong (Some (PhongMaterial p)) = Some p"

subsection \<open>Surfaces and hit records\<close>

record sphere =
  sph_center :: vec3
  sph_radius :: real
  sph_material :: "material option"

record triangle =
  tri_point0 :: vec3
  tri_point1 :: vec3
  tri_point2 :: vec3
  tri_normal :: vec3
  tri_material :: "material option"

datatype surface =
  Sphere sphere
| Triangle triangle
| SurfaceList "surface list" "material option"

fun GetMaterial :: "surface \<Rightarrow> material option" where
  "GetMaterial (Sphere s) = sph_material s"
| "GetMaterial (Triangle t) = tri_material t"
| "GetMaterial (SurfaceList cs m) = m"

text \<open>
  The hit record: the ray parameter, the hit point, the normal and the (possibly null)
  pointer to the surface that was hit.
\<close>

record hit_record =
  hr_ray_t :: real
  hr_point :: vec3
  hr_normal :: vec3
  hr_surface :: "surface option"

text \<open>
  Modelled from the spec: \<^verbatim>\<open>HitRecord::SetNormal\<close> is defined in core/ray.h, which is not
  among the sources. The spec: "orients the stored normal to oppose the ray direction
  (flip faceNormal if faceNormal\<cdot>ray.direction > 0)".
\<close>

definition SetNormal :: "ray \<Rightarrow> vec3 \<Rightarrow> hit_record \<Rightarrow> hit_record" where
  "SetNormal r face_normal hr =
     hr\<lparr>hr_normal := (if dot face_normal (ray_dir r) > 0 then smul (-1) face_normal
                       else face_normal)\<rparr>"

text \<open>
  Modelled from the spec: the default constructor of \<^verbatim>\<open>HitRecord\<close> is in core/ray.h, which
  is not among the sources. The spec: a hit record is "created empty"; here the numbers
  are zero and the surface pointer is null.
\<close>

definition HitRecord_empty :: hit_record where
  "HitRecord_empty = \<lparr>hr_ray_t = 0, hr_point = zero3, hr_normal = zero3, hr_surface = None\<rparr>"

subsection \<open>Sphere\<close>

text \<open>The discriminant and the two roots, as \<^verbatim>\<open>Sphere::Hit\<close> writes them.\<close>

definition discriminant :: "sphere \<Rightarrow> ray \<Rightarrow> real" where
  "discriminant s r =
     dot (ray_dir r) (vsub (ray_origin r) (sph_center s)) *
     dot (ray_dir r) (vsub (ray_origin r) (sph_center s)) -
     dot (ray_dir r) (ray_dir r) *
       (dot (vsub (ray_origin r) (sph_center s)) (vsub (ray_origin r) (sph_center s)) -
        sph_radius s * sph_radius s)"

definition tHit1 :: "sphere \<Rightarrow> ray \<Rightarrow> real" where
  "tHit1 s r =
     (dot (smul (-1) (ray_dir r)) (vsub (ray_origin r) (sph_center s)) -
      sqrt (discriminant s r)) / dot (ray_dir r) (ray_dir r)"

definition tHit2 :: "sphere \<Rightarrow> ray \<Rightarrow> real" where
  "tHit2 s r =
     (dot (smul (-1) (ray_dir r)) (vsub (ray_origin r) (sph_center s)) +
      sqrt (discriminant s r)) / dot (ray_dir r) (ray_dir r)"

definition wantedIntersect :: "sphere \<Rightarrow> ray \<Rightarrow> real" where
  "wantedIntersect s r = min (tHit1 s r) (tHit2 s r)"

definition Sphere_Hit ::
  "sphere \<Rightarrow> ray \<Rightarrow> real \<Rightarrow> real \<Rightarrow> hit_record \<Rightarrow> bool \<times> hit_record" where
  "Sphere_Hit s r tmin tmax hr =
     (if discriminant s r < 0 then (False, hr)
      else if wantedIntersect s r < tmin \<or> wantedIntersect s r > tmax then (False, hr)
      else
        (let hit_point = At r (wantedIntersect s r) in
         (True,
          (SetNormal r (normalized (vsub hit_point (sph_center s)))
             (hr\<lparr>hr_ray_t := wantedIntersect s r, hr_point := hit_point\<rparr>))
          \<lparr>hr_surface := Some (Sphere s)\<rparr>)))"

subsection \<open>Triangle\<close>

text \<open>\<^verbatim>\<open>Triangle::ComputeNormal\<close>: the cross product of the two edges at point 0, over its norm.\<close>

definition ComputeNormal :: "triangle \<Rightarrow> triangle" where
  "ComputeNormal t =
     t\<lparr>tri_normal :=
         sdiv (cross (vsub (tri_point1 t) (tri_point0 t)) (vsub (tri_point2 t) (tri_point0 t)))
              (norm3 (cross (vsub (tri_point1 t) (tri_point0 t))
                            (vsub (tri_point2 t) (tri_point0 t))))\<rparr>"

text \<open>
  The constructor with three points stores them and calls \<^verbatim>\<open>ComputeNormal\<close>, which
  overwrites the normal; no material is attached yet.
\<close>

definition Triangle_new :: "vec3 \<Rightarrow> vec3 \<Rightarrow> vec3 \<Rightarrow> triangle" where
  "Triangle_new point0 point1 point2 =
     ComputeNormal \<lparr>tri_point0 = point0, tri_point1 = point1, tri_point2 = point2,
                    tri_normal = zero3, tri_material = None\<rparr>"

text \<open>\<^verbatim>\<open>Triangle::SetPoints\<close>: the body assigns the three points and nothing else.\<close>

definition SetPoints :: "triangle \<Rightarrow> vec3 \<Rightarrow> vec3 \<Rightarrow> vec3 \<Rightarrow> triangle" where
  "SetPoints t point0 point1 point2 =
     t\<lparr>tri_point0 := point0, tri_point1 := point1, tri_point2 := point2\<rparr>"

text \<open>
  \<^verbatim>\<open>A.colPivHouseholderQr().solve(b)\<close> for the matrix with columns \<open>c0 c1 c2\<close>. Over the
  reals a non-singular system has one solution, written here by Cramer's rule; for a
  singular matrix the value of the QR solver is not modelled, and the theorems about the
  solution assume \<open>det3 c0 c1 c2 \<noteq> 0\<close>.
\<close>

definition det3 :: "vec3 \<Rightarrow> vec3 \<Rightarrow> vec3 \<Rightarrow> real" where
  "det3 c0 c1 c2 = dot c0 (cross c1 c2)"

definition solve3 :: "vec3 \<Rightarrow> vec3 \<Rightarrow> vec3 \<Rightarrow> vec3 \<Rightarrow> vec3" where
  "solve3 c0 c1 c2 b =
     Vec3r (det3 b c1 c2 / det3 c0 c1 c2)
           (det3 c0 b c2 / det3 c0 c1 c2)
           (det3 c0 c1 b / det3 c0 c1 c2)"

text \<open>
  \<^verbatim>\<open>Triangle::RayTriangleHit\<close>: \<open>None\<close> is the return value false (the out-parameters are
  left alone), \<open>Some (ray_t, uv)\<close> is true with both out-parameters written.
\<close>

definition RayTriangleHit ::
  "vec3 \<Rightarrow> vec3 \<Rightarrow> vec3 \<Rightarrow> ray \<Rightarrow> real \<Rightarrow> real \<Rightarrow> (real \<times> real \<times> real) option" where
  "RayTriangleHit p0 p1 p2 r tmin tmax =
     (let u = vsub p1 p0;
          v = vsub p2 p0;
          b = vsub (ray_origin r) p0;
          x = solve3 u v (smul (-1) (ray_dir r)) b
      in if tmin > vz x \<or> tmax < vz x then None
         else Some (vz x, (vx x, vy x)))"

definition Triangle_Hit ::
  "triangle \<Rightarrow> ray \<Rightarrow> real \<Rightarrow> real \<Rightarrow> hit_record \<Rightarrow> bool \<times> hit_record" where
  "Triangle_Hit t r tmin tmax hr =
     (if dot (tri_normal t) (ray_dir r) = 0 then (False, hr)
      else
        (case RayTriangleHit (tri_point0 t) (tri_point1 t) (tri_point2 t) r tmin tmax of
           None \<Rightarrow> (False, hr)
         | Some (ray_t, uv) \<Rightarrow>
             (let x = vadd (smul ray_t (ray_dir r)) (ray_origin r) in
              if dot (cross (vsub (tri_point1 t) (tri_point0 t)) (vsub x (tri_point0 t)))
                     (tri_normal t) < 0 then (False, hr)
              else if dot (cross (vsub (tri_point2 t) (tri_point1 t)) (vsub x (tri_point1 t)))
                     (tri_normal t) < 0 then (False, hr)
              else if dot (cross (vsub (tri_point0 t) (tri_point2 t)) (vsub x (tri_point2 t)))
                     (tri_normal t) < 0 then (False, hr)
              else
                (True,
                 (SetNormal r (tri_normal t)
                    (hr\<lparr>hr_ray_t := ray_t, hr_point := At r ray_t\<rparr>))
                 \<lparr>hr_surface := Some (Triangle t)\<rparr>))))"

subsection \<open>Surface lists and the virtual \<^verbatim>\<open>Hit\<close>\<close>

text \<open>
  \<^verbatim>\<open>SurfaceList::Hit\<close> copies the four fields of the local record \<^verbatim>\<open>bestRecord\<close> into
  the caller's record, the normal through \<^verbatim>\<open>SetNormal\<close>.
\<close>

definition copy_best :: "ray \<Rightarrow> hit_record \<Rightarrow> hit_record \<Rightarrow> hit_record" where
  "copy_best r bestRecord hr =
     (SetNormal r (hr_normal bestRecord)
        (hr\<lparr>hr_ray_t := hr_ray_t bestRecord, hr_point := hr_point bestRecord\<rparr>))
     \<lparr>hr_surface := hr_surface bestRecord\<rparr>"

text \<open>
  \<open>Hit\<close> is the virtual call \<^verbatim>\<open>surface->Hit(ray, tmin, tmax, hit_record)\<close>; the result
  is the returned flag and the record as the call leaves it. \<open>SurfaceList_loop\<close> is the
  \<^verbatim>\<open>for\<close> loop of \<^verbatim>\<open>SurfaceList::Hit\<close> over the remaining children; its state is
  \<^verbatim>\<open>hitAny\<close>, the caller's record and \<^verbatim>\<open>bestRecord\<close>.
\<close>

fun Hit :: "surface \<Rightarrow> ray \<Rightarrow> real \<Rightarrow> real \<Rightarrow> hit_record \<Rightarrow> bool \<times> hit_record"
  and SurfaceList_loop ::
    "surface list \<Rightarrow> ray \<Rightarrow> real \<Rightarrow> real \<Rightarrow> bool \<Rightarrow> hit_record \<Rightarrow> hit_record
       \<Rightarrow> bool \<times> hit_record \<times> hit_record" where
  "Hit (Sphere s) r tmin tmax hr = Sphere_Hit s r tmin tmax hr"
| "Hit (Triangle t) r tmin tmax hr = Triangle_Hit t r tmin tmax hr"
| "Hit (SurfaceList surfaces m) r tmin tmax hr =
     (case SurfaceList_loop surfaces r tmin tmax False (hr\<lparr>hr_ray_t := tmax\<rparr>) HitRecord_empty of
        (hitAny, hit_record, bestRecord) \<Rightarrow> (hitAny, hit_record))"
| "SurfaceList_loop [] r tmin tmax hitAny hit_record bestRecord =
     (hitAny, hit_record, bestRecord)"
| "SurfaceList_loop (surface # rest) r tmin tmax hitAny hit_record bestRecord =
     (case Hit surface r tmin tmax bestRecord of
        (True, bestRecord') \<Rightarrow>
          SurfaceList_loop rest r tmin tmax True
            (if hr_ray_t bestRecord' < hr_ray_t hit_record
             then copy_best r bestRecord' hit_record else hit_record)
            bestRecord'
      | (False, bestRecord') \<Rightarrow>
          SurfaceList_loop rest r tmin tmax hitAny hit_record bestRecord')"

subsection \<open>Phong material and lights\<close>

text \<open>
  \<^verbatim>\<open>std::pow\<close> on a base that is not negative (the base below is a \<^verbatim>\<open>std::max(0.0, _)\<close>):
  \<^verbatim>\<open>pow(0, 0)\<close> is 1, where \<open>0 powr 0\<close> is 0. A zero base with a negative exponent is
  infinite in C++ and not modelled.
\<close>

definition std_pow :: "real \<Rightarrow> real \<Rightarrow> real" where
  "std_pow b e = (if b = 0 \<and> e = 0 then 1 else b powr e)"

definition Evaluate :: "phong \<Rightarrow> hit_record \<Rightarrow> vec3 \<Rightarrow> vec3 \<Rightarrow> vec3" where
  "Evaluate m hr light_vec view_vec =
     (let biSect = normalized (vadd view_vec light_vec) in
      vadd (mat_diffuse m)
           (smul (std_pow (max 0 (dot (hr_normal hr) biSect)) (mat_shininess m))
                 (mat_specular m)))"

datatype light =
  Light
| PointLight vec3 vec3
| AmbientLight vec3

definition PointLight_Illuminate :: "vec3 \<Rightarrow> vec3 \<Rightarrow> hit_record \<Rightarrow> vec3 \<Rightarrow> vec3" where
  "PointLight_Illuminate position intensity hr view_vec =
     (let distanceSquared = dot (vsub position (hr_point hr)) (vsub position (hr_point hr));
          light_vec = normalized (vsub position (hr_point hr));
          irradiance = sdiv (smul (max 0 (dot (hr_normal hr) light_vec)) intensity)
                            distanceSquared
      in case hr_surface hr of
           None \<Rightarrow> Vec3r 0 0 0
         | Some surface \<Rightarrow>
             (case as_phong (GetMaterial surface) of
                None \<Rightarrow> Vec3r 0 0 0
              | Some m \<Rightarrow>
                  if mat_name m \<noteq> ''PhongMaterial'' then Vec3r 0 0 0
                  else cwise irradiance (Evaluate m hr light_vec view_vec)))"

definition AmbientLight_Illuminate :: "vec3 \<Rightarrow> hit_record \<Rightarrow> vec3 \<Rightarrow> vec3" where
  "AmbientLight_Illuminate ambient hr view_vec =
     (case hr_surface hr of
        None \<Rightarrow> Vec3r 0 0 0
      | Some surface \<Rightarrow>
          (case as_phong (GetMaterial surface) of
             None \<Rightarrow> Vec3r 0 0 0
           | Some m \<Rightarrow>
               if mat_name m \<noteq> ''PhongMaterial'' then Vec3r 0 0 0
               else cwise ambient (mat_ambient m)))"

text \<open>The virtual \<^verbatim>\<open>light->Illuminate\<close>; the base class \<^verbatim>\<open>Light\<close> returns black.\<close>

fun Illuminate :: "light \<Rightarrow> hit_record \<Rightarrow> vec3 \<Rightarrow> vec3" where
  "Illuminate Light hr view_vec = Vec3r 0 0 0"
| "Illuminate (PointLight position intensity) hr view_vec =
     PointLight_Illuminate position intensity hr view_vec"
| "Illuminate (AmbientLight ambient) hr view_vec = AmbientLight_Illuminate ambient hr view_vec"

subsection \<open>The shading evaluator\<close>

text \<open>The loop of \<^verbatim>\<open>RayColor\<close> over the lights, adding each contribution to \<^verbatim>\<open>ray_color\<close>.\<close>

fun add_lights :: "light list \<Rightarrow> hit_record \<Rightarrow> vec3 \<Rightarrow> vec3 \<Rightarrow> vec3" where
  "add_lights [] hr view_vec ray_color = ray_color"
| "add_lights (l # ls) hr view_vec ray_color =
     add_lights ls hr view_vec (vadd ray_color (Illuminate l hr view_vec))"

text \<open>
  \<^verbatim>\<open>RayColor\<close> dereferences \<^verbatim>\<open>hit_record.GetSurface()\<close> without a null check: a null
  surface pointer after a reported hit is a failure of the call.
\<close>

datatype error = NullSurface

text \<open>
  \<^verbatim>\<open>RayTracer::RayColor\<close>. The constants \<^verbatim>\<open>kEpsilon\<close> and \<^verbatim>\<open>kInfinity\<close> come from
  core/types.h, which is not among the sources; they are parameters here. The result is
  the returned flag and \<^verbatim>\<open>ray_color\<close>.
\<close>

definition RayColor ::
  "real \<Rightarrow> real \<Rightarrow> ray \<Rightarrow> surface \<Rightarrow> light list \<Rightarrow> error + bool \<times> vec3" where
  "RayColor kEpsilon kInfinity r scene lights =
     (case Hit scene r kEpsilon kInfinity HitRecord_empty of
        (False, hit_record) \<Rightarrow> Inr (False, Vec3r 0 0 0)
      | (True, hit_record) \<Rightarrow>
          (case hr_surface hit_record of
             None \<Rightarrow> Inl NullSurface
           | Some surface \<Rightarrow>
               (case as_phong (GetMaterial surface) of
                  None \<Rightarrow> Inr (True, Vec3r 1 0 0)
                | Some m \<Rightarrow>
                    if mat_name m = ''PhongMaterial''
                    then Inr (True, add_lights lights hit_record (smul (-1) (ray_dir r))
                                      (Vec3r 0 0 0))
                    else Inr (True, Vec3r 1 0 0))))"

subsection \<open>Specification-side notions\<close>

text \<open>The triangle invariant of the data model: the stored normal is the normalised cross
  product of the edges \<open>p1 - p0\<close> and \<open>p2 - p0\<close>.\<close>

definition normal_invariant :: "triangle \<Rightarrow> bool" where
  "normal_invariant t \<longleftrightarrow>
     tri_normal t =
       normalized (cross (vsub (tri_point1 t) (tri_point0 t)) (vsub (tri_point2 t) (tri_point0 t)))"

text \<open>The vector \<open>(\<beta>, \<gamma>, t)\<close> that \<^verbatim>\<open>RayTriangleHit\<close> obtains for a triangle and a ray.\<close>

definition barycentric_solution :: "triangle \<Rightarrow> ray \<Rightarrow> vec3" where
  "barycentric_solution t r =
     solve3 (vsub (tri_point1 t) (tri_point0 t)) (vsub (tri_point2 t) (tri_point0 t))
            (smul (-1) (ray_dir r)) (vsub (ray_origin r) (tri_point0 t))"

text \<open>A half-plane test: the edge from \<open>a\<close> to \<open>b\<close> crossed with \<open>x - a\<close>, dotted with
  the face normal \<open>n\<close>.\<close>

definition edge_test :: "vec3 \<Rightarrow> vec3 \<Rightarrow> vec3 \<Rightarrow> vec3 \<Rightarrow> real" where
  "edge_test a b x n = dot (cross (vsub b a) (vsub x a)) n"

text \<open>The sum of a list of colours.\<close>

fun vsum :: "vec3 list \<Rightarrow> vec3" where
  "vsum [] = Vec3r 0 0 0"
| "vsum (c # cs) = vadd c (vsum cs)"

text \<open>
  The material that the shading code accepts for a hit: the record's surface pointer is
  not null, the surface's material is a \<^verbatim>\<open>PhongMaterial\<close>, and its name is the string
  "PhongMaterial".
\<close>

definition compatible_material :: "hit_record \<Rightarrow> phong option" where
  "compatible_material hr =
     (case hr_surface hr of
        None \<Rightarrow> None
      | Some surface \<Rightarrow>
          (case as_phong (GetMaterial surface) of
             None \<Rightarrow> None
           | Some m \<Rightarrow> if mat_name m = ''PhongMaterial'' then Some m else None))"

text \<open>The irradiance of a point light as the specification words it, channel by channel:
  intensity times \<open>max 0 (normal \<cdot> lightVec)\<close> over the squared distance.\<close>

definition spec_irradiance :: "vec3 \<Rightarrow> vec3 \<Rightarrow> hit_record \<Rightarrow> vec3" where
  "spec_irradiance position intensity hr =
     Vec3r
       (vx intensity * max 0 (dot (hr_normal hr) (normalized (vsub position (hr_point hr))))
          / squaredNorm (vsub position (hr_point hr)))
       (vy intensity * max 0 (dot (hr_normal hr) (normalized (vsub position (hr_point hr))))
          / squaredNorm (vsub position (hr_point hr)))
       (vz intensity * max 0 (dot (hr_normal hr) (normalized (vsub position (hr_point hr))))
          / squaredNorm (vsub position (hr_point hr)))"

text \<open>The Blinn-Phong response as the specification words it, channel by channel:
  diffuse plus specular times \<open>max 0 (normal \<cdot> half)\<close> to the power shininess, with
  \<open>half = normalize (viewVec + lightVec)\<close>.\<close>

definition spec_response :: "phong \<Rightarrow> hit_record \<Rightarrow> vec3 \<Rightarrow> vec3 \<Rightarrow> vec3" where
  "spec_response m hr light_vec view_vec =
     Vec3r
       (vx (mat_diffuse m) + vx (mat_specular m) *
          std_pow (max 0 (dot (hr_normal hr) (normalized (vadd view_vec light_vec))))
                  (mat_shininess m))
       (vy (mat_diffuse m) + vy (mat_specular m) *
          std_pow (max 0 (dot (hr_normal hr) (normalized (vadd view_vec light_vec))))
                  (mat_shininess m))
       (vz (mat_diffuse m) + vz (mat_specular m) *
          std_pow (max 0 (dot (hr_normal hr) (normalized (vadd view_vec light_vec))))
                  (mat_shininess m))"

text \<open>
  "Keeps the result with the smallest rayT seen so far", read on the children one by
  one: each child is tested on its own with a fresh record, and its record replaces the
  current one when its parameter is strictly smaller.
\<close>

fun nearest :: "surface list \<Rightarrow> ray \<Rightarrow> real \<Rightarrow> real \<Rightarrow> hit_record \<Rightarrow> hit_record" where
  "nearest [] r tmin tmax cur = cur"
| "nearest (c # cs) r tmin tmax cur =
     nearest cs r tmin tmax
       (case Hit c r tmin tmax HitRecord_empty of
          (True, h) \<Rightarrow> if hr_ray_t h < hr_ray_t cur then h else cur
        | (False, h) \<Rightarrow> cur)"

text \<open>The invariants of the data model for a scene: a sphere has a radius other than 0, a
  triangle a stored normal of length 1, and a list only such children.\<close>

fun well_formed :: "surface \<Rightarrow> bool" where
  "well_formed (Sphere s) \<longleftrightarrow> sph_radius s \<noteq> 0"
| "well_formed (Triangle t) \<longleftrightarrow> squaredNorm (tri_normal t) = 1"
| "well_formed (SurfaceList cs m) \<longleftrightarrow> list_all well_formed cs"

subsection \<open>Example scenes\<close>

definition ex_ray :: ray where
  "ex_ray = Ray (Vec3r 0 0 0) (Vec3r 0 0 1)"

definition ex_sphere :: "material option \<Rightarrow> sphere" where
  "ex_sphere m = \<lparr>sph_center = Vec3r 0 0 5, sph_radius = 1, sph_material = m\<rparr>"


definition ex_far_sphere :: sphere where
  "ex_far_sphere = \<lparr>sph_center = Vec3r 9 0 5, sph_radius = 1, sph_material = None\<rparr>"

definition ex_triangle :: triangle where
  "ex_triangle = Triangle_new (Vec3r 0 0 0) (Vec3r 1 0 0) (Vec3r 0 1 0)"

definition ex_down_ray :: ray where
  "ex_down_ray = Ray (Vec3r (1/4) (1/4) 1) (Vec3r 0 0 (-1))"

definition ex_parallel_ray :: ray where
  "ex_parallel_ray = Ray (Vec3r 0 0 1) (Vec3r 1 0 0)"

definition ex_default_material :: phong where
  "ex_default_material =
     PhongMaterial_new (Vec3r 1 (1/2) 0) (Vec3r 1 1 1) (Vec3r 0 0 0) 10 (Vec3r 0 0 0) ''''"

definition ex_named_material :: phong where
  "ex_named_material =
     PhongMaterial_new (Vec3r 1 (1/2) 0) (Vec3r 1 1 1) (Vec3r 0 0 0) 10 (Vec3r 0 0 0) ''Shiny''"

text \<open>The record that \<^verbatim>\<open>Sphere::Hit\<close> fills for \<open>ex_ray\<close> and the example sphere carrying
  the material \<open>m\<close>.\<close>

definition ex_hit :: "phong \<Rightarrow> hit_record" where
  "ex_hit m = snd (Sphere_Hit (ex_sphere (Some (PhongMaterial m))) ex_ray 0 10 HitRecord_empty)"

text \<open>A hit at the origin of a flat surface with the normal \<open>(0, 0, 1)\<close>.\<close>

definition ex_flat_hit :: hit_record where
  "ex_flat_hit =
     \<lparr>hr_ray_t = 1, hr_point = Vec3r 0 0 0, hr_normal = Vec3r 0 0 1,
      hr_surface = Some (Sphere (ex_sphere (Some (PhongMaterial ex_default_material))))\<rparr>"

text \<open>A record left over from an earlier query: the example sphere hit from behind, by the
  ray from \<open>(0, 0, 10)\<close> in direction \<open>(0, 0, -1)\<close>.\<close>

definition ex_back_ray :: ray where
  "ex_back_ray = Ray (Vec3r 0 0 10) (Vec3r 0 0 (-1))"

definition ex_prev_hit :: hit_record where
  "ex_prev_hit = snd (Sphere_Hit (ex_sphere None) ex_back_ray 0 10 HitRecord_empty)"

section \<open>Vector algebra\<close>

lemma vadd_commute: "vadd a b = vadd b a"
  by (cases a; cases b) simp

lemma vadd_assoc: "vadd (vadd a b) c = vadd a (vadd b c)"
  by (cases a; cases b; cases c) simp

lemma vadd_zero_left: "vadd (Vec3r 0 0 0) a = a"
  by (cases a) simp

lemma dot_smul_left: "dot (smul k a) b = k * dot a b"
  by (cases a; cases b) (simp add: algebra_simps)

lemma dot_commute: "dot a b = dot b a"
  by (cases a; cases b) simp

lemma squaredNorm_sdiv: "squaredNorm (sdiv v k) = squaredNorm v / (k * k)"
  by (cases v) (simp add: squaredNorm_def add_divide_distrib)

lemma squaredNorm_normalized: "0 < squaredNorm v \<Longrightarrow> squaredNorm (normalized v) = 1"
  by (simp add: normalized_def squaredNorm_sdiv)

lemma squaredNorm_smul: "squaredNorm (smul k v) = k * k * squaredNorm v"
  by (cases v) (simp add: squaredNorm_def algebra_simps)

text \<open>A ray constructed from a direction other than zero has a direction of length 1.\<close>

lemma Ray_unit_direction:
  assumes "dir \<noteq> Vec3r 0 0 0"
  shows "squaredNorm (ray_dir (Ray origin dir)) = 1"
    and "dot (ray_dir (Ray origin dir)) (ray_dir (Ray origin dir)) \<noteq> 0"
proof -
  have "squaredNorm dir \<noteq> 0"
    using assms by (cases dir) (simp add: squaredNorm_def add_nonneg_eq_0_iff)
  moreover have "0 \<le> squaredNorm dir" by (cases dir) (simp add: squaredNorm_def)
  ultimately have pos: "0 < squaredNorm dir" by simp
  then show "squaredNorm (ray_dir (Ray origin dir)) = 1"
    by (simp add: Ray_def norm3_def squaredNorm_sdiv)
  then show "dot (ray_dir (Ray origin dir)) (ray_dir (Ray origin dir)) \<noteq> 0"
    by (simp add: squaredNorm_def)
qed

lemma along_ray_quadratic:
  "dot (vsub (At r t) c) (vsub (At r t) c) =
     dot (ray_dir r) (ray_dir r) * t * t +
     2 * dot (ray_dir r) (vsub (ray_origin r) c) * t +
     dot (vsub (ray_origin r) c) (vsub (ray_origin r) c)"
  by (cases "ray_dir r"; cases "ray_origin r"; cases c) (simp add: At_def algebra_simps)

lemma quadratic_root:
  fixes a b cc sq :: real
  assumes "a \<noteq> 0" and "sq * sq = b * b - a * cc"
  shows "a * ((- b + sq) / a) * ((- b + sq) / a) + 2 * b * ((- b + sq) / a) + cc = 0"
proof -
  have "a * ((- b + sq) / a) * ((- b + sq) / a) + 2 * b * ((- b + sq) / a) + cc
          = (sq * sq - (b * b - a * cc)) / a"
    using assms(1) by (simp add: field_simps)
  then show ?thesis using assms(2) by simp
qed

lemma cramer_component:
  fixes d n0 n1 n2 a0 a1 a2 b :: real
  assumes "d \<noteq> 0" and "n0 * a0 + n1 * a1 + n2 * a2 = b * d"
  shows "n0 / d * a0 + n1 / d * a1 + n2 / d * a2 = b"
proof -
  have "n0 / d * a0 + n1 / d * a1 + n2 / d * a2 = (n0 * a0 + n1 * a1 + n2 * a2) / d"
    by (simp add: add_divide_distrib)
  also have "\<dots> = b" using assms by simp
  finally show ?thesis .
qed

text \<open>For a non-singular matrix, \<open>solve3\<close> returns the solution of the linear system.\<close>

lemma solve3_solves:
  assumes "det3 c0 c1 c2 \<noteq> 0"
  shows "vadd (vadd (smul (vx (solve3 c0 c1 c2 b)) c0) (smul (vy (solve3 c0 c1 c2 b)) c1))
              (smul (vz (solve3 c0 c1 c2 b)) c2) = b"
proof (cases c0; cases c1; cases c2; cases b)
  fix a0 a1 a2 b0 b1 b2 e0 e1 e2 f0 f1 f2
  assume eq: "c0 = Vec3r a0 a1 a2" "c1 = Vec3r b0 b1 b2" "c2 = Vec3r e0 e1 e2"
    "b = Vec3r f0 f1 f2"
  let ?d = "det3 c0 c1 c2"
  have X: "det3 b c1 c2 / ?d * a0 + det3 c0 b c2 / ?d * b0 + det3 c0 c1 b / ?d * e0 = f0"
    by (rule cramer_component [OF assms]) (simp add: eq det3_def algebra_simps)
  have Y: "det3 b c1 c2 / ?d * a1 + det3 c0 b c2 / ?d * b1 + det3 c0 c1 b / ?d * e1 = f1"
    by (rule cramer_component [OF assms]) (simp add: eq det3_def algebra_simps)
  have Z: "det3 b c1 c2 / ?d * a2 + det3 c0 b c2 / ?d * b2 + det3 c0 c1 b / ?d * e2 = f2"
    by (rule cramer_component [OF assms]) (simp add: eq det3_def algebra_simps)
  show ?thesis
    using X Y Z by (simp add: solve3_def eq)
qed

section \<open>Sphere\<close>

text \<open>With a non-negative discriminant and a ray of non-zero direction, both roots are
  parameters of points on the sphere, and \<open>tHit1\<close> is the smaller one.\<close>

lemma roots_on_sphere:
  assumes d: "0 \<le> discriminant s r" and a: "dot (ray_dir r) (ray_dir r) \<noteq> 0"
  shows "squaredNorm (vsub (At r (tHit1 s r)) (sph_center s)) = sph_radius s * sph_radius s"
    and "squaredNorm (vsub (At r (tHit2 s r)) (sph_center s)) = sph_radius s * sph_radius s"
proof -
  let ?a = "dot (ray_dir r) (ray_dir r)"
  let ?b = "dot (ray_dir r) (vsub (ray_origin r) (sph_center s))"
  let ?oc = "dot (vsub (ray_origin r) (sph_center s)) (vsub (ray_origin r) (sph_center s))"
  let ?cc = "?oc - sph_radius s * sph_radius s"
  let ?sq = "sqrt (discriminant s r)"
  have sq: "?sq * ?sq = ?b * ?b - ?a * ?cc"
    using d by (simp add: discriminant_def)
  have sq': "(- ?sq) * (- ?sq) = ?b * ?b - ?a * ?cc" using sq by simp
  have t1: "tHit1 s r = (- ?b + (- ?sq)) / ?a"
    by (simp add: tHit1_def dot_smul_left)
  have t2: "tHit2 s r = (- ?b + ?sq) / ?a"
    by (simp add: tHit2_def dot_smul_left)
  have "?a * tHit1 s r * tHit1 s r + 2 * ?b * tHit1 s r + ?cc = 0"
    unfolding t1 by (rule quadratic_root [OF a sq'])
  then show "squaredNorm (vsub (At r (tHit1 s r)) (sph_center s)) = sph_radius s * sph_radius s"
    by (simp add: squaredNorm_def along_ray_quadratic)
  have "?a * tHit2 s r * tHit2 s r + 2 * ?b * tHit2 s r + ?cc = 0"
    unfolding t2 by (rule quadratic_root [OF a sq])
  then show "squaredNorm (vsub (At r (tHit2 s r)) (sph_center s)) = sph_radius s * sph_radius s"
    by (simp add: squaredNorm_def along_ray_quadratic)
qed


lemmas sphere_eval =
  Sphere_Hit_def discriminant_def wantedIntersect_def tHit1_def tHit2_def At_def SetNormal_def
  normalized_def squaredNorm_def norm3_def Let_def Ray_def



section \<open>Triangle\<close>

lemma SetPoints_normal: "tri_normal (SetPoints t a b c) = tri_normal t"
  by (simp add: SetPoints_def)

text \<open>
  Claim C8. The claim: after \<^verbatim>\<open>SetPoints\<close> the stored normal is the normalised cross
  product of the new edges. The code: \<^verbatim>\<open>SetPoints\<close> stores the points and leaves the normal
  as it was. The triangle built from \<open>(0,0,0)\<close>, \<open>(1,0,0)\<close>, \<open>(0,1,0)\<close> satisfies the invariant
  with the normal \<open>(0,0,1)\<close>; after \<^verbatim>\<open>SetPoints\<close> to \<open>(0,0,0)\<close>, \<open>(0,1,0)\<close>, \<open>(0,0,1)\<close> the stored
  normal is still \<open>(0,0,1)\<close>, while the normalised cross product of the new edges is
  \<open>(1,0,0)\<close>.
\<close>

theorem SetPoints_stale_normal:
  "normal_invariant ex_triangle \<and>
   tri_normal (SetPoints ex_triangle (Vec3r 0 0 0) (Vec3r 0 1 0) (Vec3r 0 0 1)) = Vec3r 0 0 1 \<and>
   normalized (cross (vsub (Vec3r 0 1 0) (Vec3r 0 0 0)) (vsub (Vec3r 0 0 1) (Vec3r 0 0 0)))
     = Vec3r 1 0 0 \<and>
   \<not> normal_invariant (SetPoints ex_triangle (Vec3r 0 0 0) (Vec3r 0 1 0) (Vec3r 0 0 1))"
  by (simp add: normal_invariant_def SetPoints_def ex_triangle_def Triangle_new_def
        ComputeNormal_def normalized_def norm3_def squaredNorm_def)

lemmas triangle_eval =
  Triangle_Hit_def RayTriangleHit_def barycentric_solution_def edge_test_def solve3_def det3_def
  At_def SetNormal_def Let_def Ray_def norm3_def squaredNorm_def

text \<open>The matrix of the linear system is singular exactly when the ray is parallel to the
  plane of the three points; for a triangle whose normal was computed from its points, a
  ray that passes the early test meets a non-singular system.\<close>

lemma det3_ray: "det3 u v (smul (-1) d) = - dot (cross u v) d"
  by (cases u; cases v; cases d) (simp add: det3_def algebra_simps)

lemma dot_sdiv_left: "dot (sdiv a k) b = dot a b / k"
  by (cases a; cases b) (simp add: add_divide_distrib)

lemma ComputeNormal_nonsingular:
  assumes "dot (tri_normal (ComputeNormal t)) (ray_dir r) \<noteq> 0"
  shows "det3 (vsub (tri_point1 t) (tri_point0 t)) (vsub (tri_point2 t) (tri_point0 t))
              (smul (-1) (ray_dir r)) \<noteq> 0"
proof -
  have "dot (cross (vsub (tri_point1 t) (tri_point0 t)) (vsub (tri_point2 t) (tri_point0 t)))
            (ray_dir r) \<noteq> 0"
    using assms by (auto simp add: ComputeNormal_def dot_sdiv_left)
  then show ?thesis by (simp add: det3_ray)
qed

text \<open>
  Claim C3. \<^verbatim>\<open>Triangle::Hit\<close> returns false when the ray direction is perpendicular to the
  stored face normal. Otherwise it takes \<open>(\<beta>, \<gamma>, t)\<close> from the solver, which for a
  non-singular matrix is the solution of \<open>\<beta> u + \<gamma> v - t D = O - p0\<close> with \<open>u = p1 - p0\<close>
  and \<open>v = p2 - p0\<close>; it returns true exactly when \<open>t\<close> lies in \<open>[tmin, tmax]\<close> and the
  three edge tests at \<open>x = O + t D\<close> are all at least 0. On acceptance the record holds
  \<open>t\<close>, the hit point, the face normal oriented against the ray, and the triangle itself;
  on a miss the record is unchanged.
\<close>

theorem Triangle_Hit_spec:
  "(dot (tri_normal t) (ray_dir r) = 0 \<longrightarrow> Triangle_Hit t r tmin tmax hr = (False, hr)) \<and>
   (det3 (vsub (tri_point1 t) (tri_point0 t)) (vsub (tri_point2 t) (tri_point0 t))
         (smul (-1) (ray_dir r)) \<noteq> 0 \<longrightarrow>
      vadd (vadd (smul (vx (barycentric_solution t r)) (vsub (tri_point1 t) (tri_point0 t)))
                 (smul (vy (barycentric_solution t r)) (vsub (tri_point2 t) (tri_point0 t))))
           (smul (vz (barycentric_solution t r)) (smul (-1) (ray_dir r)))
        = vsub (ray_origin r) (tri_point0 t)) \<and>
   (dot (tri_normal t) (ray_dir r) \<noteq> 0 \<longrightarrow>
      (fst (Triangle_Hit t r tmin tmax hr) \<longleftrightarrow>
         tmin \<le> vz (barycentric_solution t r) \<and> vz (barycentric_solution t r) \<le> tmax \<and>
         0 \<le> edge_test (tri_point0 t) (tri_point1 t) (At r (vz (barycentric_solution t r)))
                (tri_normal t) \<and>
         0 \<le> edge_test (tri_point1 t) (tri_point2 t) (At r (vz (barycentric_solution t r)))
                (tri_normal t) \<and>
         0 \<le> edge_test (tri_point2 t) (tri_point0 t) (At r (vz (barycentric_solution t r)))
                (tri_normal t))) \<and>
   (fst (Triangle_Hit t r tmin tmax hr) \<longrightarrow>
      hr_ray_t (snd (Triangle_Hit t r tmin tmax hr)) = vz (barycentric_solution t r) \<and>
      hr_point (snd (Triangle_Hit t r tmin tmax hr)) = At r (vz (barycentric_solution t r)) \<and>
      hr_normal (snd (Triangle_Hit t r tmin tmax hr)) =
        hr_normal (SetNormal r (tri_normal t) hr) \<and>
      hr_surface (snd (Triangle_Hit t r tmin tmax hr)) = Some (Triangle t)) \<and>
   (\<not> fst (Triangle_Hit t r tmin tmax hr) \<longrightarrow> snd (Triangle_Hit t r tmin tmax hr) = hr)"
proof -
  have sys: "det3 (vsub (tri_point1 t) (tri_point0 t)) (vsub (tri_point2 t) (tri_point0 t))
         (smul (-1) (ray_dir r)) \<noteq> 0 \<longrightarrow>
      vadd (vadd (smul (vx (barycentric_solution t r)) (vsub (tri_point1 t) (tri_point0 t)))
                 (smul (vy (barycentric_solution t r)) (vsub (tri_point2 t) (tri_point0 t))))
           (smul (vz (barycentric_solution t r)) (smul (-1) (ray_dir r)))
        = vsub (ray_origin r) (tri_point0 t)"
    unfolding barycentric_solution_def by (blast intro: solve3_solves)
  have x: "vadd (smul k (ray_dir r)) (ray_origin r) = At r k" for k
    by (simp add: At_def vadd_commute)
  have rest:
    "(dot (tri_normal t) (ray_dir r) = 0 \<longrightarrow> Triangle_Hit t r tmin tmax hr = (False, hr))"
    "(dot (tri_normal t) (ray_dir r) \<noteq> 0 \<longrightarrow>
      (fst (Triangle_Hit t r tmin tmax hr) \<longleftrightarrow>
         tmin \<le> vz (barycentric_solution t r) \<and> vz (barycentric_solution t r) \<le> tmax \<and>
         0 \<le> edge_test (tri_point0 t) (tri_point1 t) (At r (vz (barycentric_solution t r)))
                (tri_normal t) \<and>
         0 \<le> edge_test (tri_point1 t) (tri_point2 t) (At r (vz (barycentric_solution t r)))
                (tri_normal t) \<and>
         0 \<le> edge_test (tri_point2 t) (tri_point0 t) (At r (vz (barycentric_solution t r)))
                (tri_normal t)))"
    "(fst (Triangle_Hit t r tmin tmax hr) \<longrightarrow>
      hr_ray_t (snd (Triangle_Hit t r tmin tmax hr)) = vz (barycentric_solution t r) \<and>
      hr_point (snd (Triangle_Hit t r tmin tmax hr)) = At r (vz (barycentric_solution t r)) \<and>
      hr_normal (snd (Triangle_Hit t r tmin tmax hr)) =
        hr_normal (SetNormal r (tri_normal t) hr) \<and>
      hr_surface (snd (Triangle_Hit t r tmin tmax hr)) = Some (Triangle t))"
    "(\<not> fst (Triangle_Hit t r tmin tmax hr) \<longrightarrow> snd (Triangle_Hit t r tmin tmax hr) = hr)"
    by (auto simp add: Triangle_Hit_def RayTriangleHit_def barycentric_solution_def edge_test_def
          x SetNormal_def Let_def)
  show ?thesis using sys rest by blast
qed

text \<open>
  The instance of the specification: the triangle \<open>(0,0,0)\<close>, \<open>(1,0,0)\<close>, \<open>(0,1,0)\<close> and
  the ray from \<open>(1/4, 1/4, 1)\<close> along \<open>-z\<close>. The solver returns \<open>\<beta> = \<gamma> = 1/4\<close> and
  \<open>t = 1\<close>, and the ray hits at \<open>(1/4, 1/4, 0)\<close> with the normal \<open>(0, 0, 1)\<close>. The ray
  from \<open>(0, 0, 1)\<close> along \<open>x\<close> is perpendicular to the normal: a miss.
\<close>

theorem Triangle_Hit_spec_witness:
  "dot (tri_normal ex_triangle) (ray_dir ex_parallel_ray) = 0 \<and>
   Triangle_Hit ex_triangle ex_parallel_ray 0 10 HitRecord_empty = (False, HitRecord_empty) \<and>
   dot (tri_normal ex_triangle) (ray_dir ex_down_ray) \<noteq> 0 \<and>
   det3 (vsub (tri_point1 ex_triangle) (tri_point0 ex_triangle))
        (vsub (tri_point2 ex_triangle) (tri_point0 ex_triangle))
        (smul (-1) (ray_dir ex_down_ray)) \<noteq> 0 \<and>
   barycentric_solution ex_triangle ex_down_ray = Vec3r (1/4) (1/4) 1 \<and>
   vadd (vadd (smul (1/4) (Vec3r 1 0 0)) (smul (1/4) (Vec3r 0 1 0))) (smul 1 (Vec3r 0 0 1))
     = vsub (ray_origin ex_down_ray) (tri_point0 ex_triangle) \<and>
   fst (Triangle_Hit ex_triangle ex_down_ray 0 10 HitRecord_empty) \<and>
   hr_ray_t (snd (Triangle_Hit ex_triangle ex_down_ray 0 10 HitRecord_empty)) = 1 \<and>
   hr_point (snd (Triangle_Hit ex_triangle ex_down_ray 0 10 HitRecord_empty))
     = Vec3r (1/4) (1/4) 0 \<and>
   hr_normal (snd (Triangle_Hit ex_triangle ex_down_ray 0 10 HitRecord_empty)) = Vec3r 0 0 1 \<and>
   hr_surface (snd (Triangle_Hit ex_triangle ex_down_ray 0 10 HitRecord_empty))
     = Some (Triangle ex_triangle)"
proof -
  have tri: "tri_point0 ex_triangle = Vec3r 0 0 0" "tri_point1 ex_triangle = Vec3r 1 0 0"
    "tri_point2 ex_triangle = Vec3r 0 1 0" "tri_normal ex_triangle = Vec3r 0 0 1"
    by (simp_all add: ex_triangle_def Triangle_new_def ComputeNormal_def norm3_def
          squaredNorm_def)
  have rays: "ray_dir ex_parallel_ray = Vec3r 1 0 0" "ray_dir ex_down_ray = Vec3r 0 0 (-1)"
    "ray_origin ex_down_ray = Vec3r (1/4) (1/4) 1"
    by (simp_all add: ex_parallel_ray_def ex_down_ray_def Ray_def norm3_def squaredNorm_def)
  have par: "dot (tri_normal ex_triangle) (ray_dir ex_parallel_ray) = 0"
    and down: "dot (tri_normal ex_triangle) (ray_dir ex_down_ray) \<noteq> 0"
    and det: "det3 (vsub (tri_point1 ex_triangle) (tri_point0 ex_triangle))
        (vsub (tri_point2 ex_triangle) (tri_point0 ex_triangle))
        (smul (-1) (ray_dir ex_down_ray)) \<noteq> 0"
    by (simp_all add: tri rays det3_def)
  have sol: "barycentric_solution ex_triangle ex_down_ray = Vec3r (1/4) (1/4) 1"
    by (simp add: barycentric_solution_def solve3_def det3_def tri rays)
  have w1: "Triangle_Hit ex_triangle ex_parallel_ray 0 10 HitRecord_empty
              = (False, HitRecord_empty)"
    using Triangle_Hit_spec [of ex_triangle ex_parallel_ray 0 10 HitRecord_empty] par
    by blast
  have w2: "vadd (vadd (smul (1/4) (Vec3r 1 0 0)) (smul (1/4) (Vec3r 0 1 0)))
              (smul 1 (Vec3r 0 0 1))
            = vsub (ray_origin ex_down_ray) (tri_point0 ex_triangle)"
    using Triangle_Hit_spec [of ex_triangle ex_down_ray 0 10 HitRecord_empty] det
    by (simp add: sol tri rays)
  have edges:
    "0 \<le> edge_test (tri_point0 ex_triangle) (tri_point1 ex_triangle) (At ex_down_ray 1)
            (tri_normal ex_triangle)"
    "0 \<le> edge_test (tri_point1 ex_triangle) (tri_point2 ex_triangle) (At ex_down_ray 1)
            (tri_normal ex_triangle)"
    "0 \<le> edge_test (tri_point2 ex_triangle) (tri_point0 ex_triangle) (At ex_down_ray 1)
            (tri_normal ex_triangle)"
    "At ex_down_ray 1 = Vec3r (1/4) (1/4) 0"
    by (simp_all add: edge_test_def At_def tri rays)
  have w3: "fst (Triangle_Hit ex_triangle ex_down_ray 0 10 HitRecord_empty)"
    using Triangle_Hit_spec [of ex_triangle ex_down_ray 0 10 HitRecord_empty] down edges
    by (simp add: sol)
  have n: "hr_normal (SetNormal ex_down_ray (tri_normal ex_triangle) HitRecord_empty)
             = Vec3r 0 0 1"
    by (simp add: SetNormal_def tri rays)
  have w4:
    "hr_ray_t (snd (Triangle_Hit ex_triangle ex_down_ray 0 10 HitRecord_empty)) = 1"
    "hr_point (snd (Triangle_Hit ex_triangle ex_down_ray 0 10 HitRecord_empty))
       = Vec3r (1/4) (1/4) 0"
    "hr_normal (snd (Triangle_Hit ex_triangle ex_down_ray 0 10 HitRecord_empty)) = Vec3r 0 0 1"
    "hr_surface (snd (Triangle_Hit ex_triangle ex_down_ray 0 10 HitRecord_empty))
       = Some (Triangle ex_triangle)"
    using Triangle_Hit_spec [of ex_triangle ex_down_ray 0 10 HitRecord_empty] w3 edges(4) n
    by (simp_all add: sol)
  show ?thesis using par down det sol w1 w2 w3 w4 by simp
qed

section \<open>Shading\<close>

lemma Evaluate_spec: "Evaluate m hr light_vec view_vec = spec_response m hr light_vec view_vec"
  by (cases "mat_diffuse m"; cases "mat_specular m")
     (simp add: Evaluate_def spec_response_def Let_def)

lemma irradiance_channels:
  "sdiv (smul k intensity) d =
     Vec3r (vx intensity * k / d) (vy intensity * k / d) (vz intensity * k / d)"
  by (cases intensity) (simp add: mult.commute)

lemma PointLight_compatible:
  "compatible_material hr = Some m \<Longrightarrow>
   PointLight_Illuminate position intensity hr view_vec =
     cwise (spec_irradiance position intensity hr)
           (spec_response m hr (normalized (vsub position (hr_point hr))) view_vec)"
  by (auto simp add: compatible_material_def PointLight_Illuminate_def Let_def Evaluate_spec
        irradiance_channels spec_irradiance_def squaredNorm_def
        split: option.splits if_splits)

lemma PointLight_incompatible:
  "compatible_material hr = None \<Longrightarrow>
   PointLight_Illuminate position intensity hr view_vec = Vec3r 0 0 0"
  by (auto simp add: compatible_material_def PointLight_Illuminate_def Let_def
        split: option.splits if_splits)

lemma AmbientLight_compatible:
  "compatible_material hr = Some m \<Longrightarrow>
   AmbientLight_Illuminate ambient hr view_vec = cwise ambient (mat_ambient m)"
  by (auto simp add: compatible_material_def AmbientLight_Illuminate_def
        split: option.splits if_splits)

lemma AmbientLight_incompatible:
  "compatible_material hr = None \<Longrightarrow>
   AmbientLight_Illuminate ambient hr view_vec = Vec3r 0 0 0"
  by (auto simp add: compatible_material_def AmbientLight_Illuminate_def
        split: option.splits if_splits)

text \<open>The loop over the lights adds the contributions to the colour it starts from.\<close>

lemma add_lights_vsum:
  "add_lights ls hr v c = vadd c (vsum (map (\<lambda>l. Illuminate l hr v) ls))"
proof (induction ls arbitrary: c)
  case Nil
  show ?case by (cases c) simp
next
  case (Cons l ls)
  show ?case by (simp add: Cons.IH vadd_assoc)
qed

lemma RayColor_miss:
  "\<not> fst (Hit scene r kEpsilon kInfinity HitRecord_empty) \<Longrightarrow>
   RayColor kEpsilon kInfinity r scene lights = Inr (False, Vec3r 0 0 0)"
  by (cases "Hit scene r kEpsilon kInfinity HitRecord_empty") (simp add: RayColor_def)

lemma RayColor_compatible:
  "Hit scene r kEpsilon kInfinity HitRecord_empty = (True, hr) \<Longrightarrow>
   compatible_material hr = Some m \<Longrightarrow>
   RayColor kEpsilon kInfinity r scene lights =
     Inr (True, vsum (map (\<lambda>l. Illuminate l hr (smul (-1) (ray_dir r))) lights))"
  by (auto simp add: RayColor_def compatible_material_def add_lights_vsum vadd_zero_left
        split: option.splits if_splits)

lemma RayColor_incompatible:
  "Hit scene r kEpsilon kInfinity HitRecord_empty = (True, hr) \<Longrightarrow>
   hr_surface hr = Some surface \<Longrightarrow>
   compatible_material hr = None \<Longrightarrow>
   RayColor kEpsilon kInfinity r scene lights = Inr (True, Vec3r 1 0 0)"
  by (auto simp add: RayColor_def compatible_material_def
        split: option.splits if_splits)

text \<open>A reported hit whose record has no surface makes \<^verbatim>\<open>RayColor\<close> dereference a null
  pointer.\<close>

lemma RayColor_null_surface:
  "Hit scene r kEpsilon kInfinity HitRecord_empty = (True, hr) \<Longrightarrow>
   hr_surface hr = None \<Longrightarrow>
   RayColor kEpsilon kInfinity r scene lights = Inl NullSurface"
  by (simp add: RayColor_def)

subsection \<open>The example sphere\<close>

lemma ex_sphere_hit:
  "tmin \<le> 4 \<Longrightarrow> 4 \<le> tmax \<Longrightarrow>
   Sphere_Hit (ex_sphere mo) ex_ray tmin tmax hr =
     (True, hr\<lparr>hr_ray_t := 4, hr_point := Vec3r 0 0 4, hr_normal := Vec3r 0 0 (-1),
               hr_surface := Some (Sphere (ex_sphere mo))\<rparr>)"
  by (simp add: sphere_eval ex_sphere_def ex_ray_def)

lemma ex_far_sphere_miss: "Sphere_Hit ex_far_sphere ex_ray tmin tmax hr = (False, hr)"
  by (simp add: sphere_eval ex_far_sphere_def ex_ray_def)

lemma ex_hit_eq:
  "ex_hit m = \<lparr>hr_ray_t = 4, hr_point = Vec3r 0 0 4, hr_normal = Vec3r 0 0 (-1),
      hr_surface = Some (Sphere (ex_sphere (Some (PhongMaterial m))))\<rparr>"
  by (simp add: ex_hit_def ex_sphere_hit HitRecord_empty_def)

lemma ex_list_hit:
  "tmin \<le> 4 \<Longrightarrow> 4 < tmax \<Longrightarrow>
   Hit (SurfaceList [Sphere (ex_sphere (Some (PhongMaterial m)))] None) ex_ray tmin tmax
       HitRecord_empty = (True, ex_hit m)"
  by (simp add: ex_sphere_hit ex_hit_eq copy_best_def SetNormal_def HitRecord_empty_def)
     (simp add: ex_ray_def Ray_def norm3_def squaredNorm_def)

lemma compatible_default:
  "compatible_material (ex_hit ex_default_material) = Some ex_default_material"
  by (simp add: ex_hit_eq compatible_material_def ex_sphere_def ex_default_material_def
        PhongMaterial_new_def)

lemma compatible_named: "compatible_material (ex_hit ex_named_material) = None"
  by (simp add: ex_hit_eq compatible_material_def ex_sphere_def ex_named_material_def
        PhongMaterial_new_def)

lemma compatible_flat: "compatible_material ex_flat_hit = Some ex_default_material"
  by (simp add: ex_flat_hit_def compatible_material_def ex_sphere_def ex_default_material_def
        PhongMaterial_new_def)

subsection \<open>The claims about shading\<close>

text \<open>
  Claim C6. For a hit whose surface carries a compatible material,
  \<^verbatim>\<open>PointLight::Illuminate\<close> returns the element-wise product of the irradiance
  \<open>intensity \<cdot> max 0 (normal \<cdot> lightVec) / |position - hitPoint|\<^sup>2\<close>, with
  \<open>lightVec = normalize (position - hitPoint)\<close>, and the material response
  \<open>diffuse + specular \<cdot> (max 0 (normal \<cdot> half)) ^ shininess\<close> per channel, with
  \<open>half = normalize (viewVec + lightVec)\<close>, which is what \<^verbatim>\<open>PhongMaterial::Evaluate\<close>
  returns. For a hit whose surface carries no compatible material it returns black. The
  quotient by the squared distance stands on both sides of the equation: for a light
  placed at the hit point the C++ result is not a number, and the equation does not
  describe it.
\<close>

theorem PointLight_Illuminate_spec:
  "(compatible_material hr = Some m \<longrightarrow>
      PointLight_Illuminate position intensity hr view_vec =
        cwise (spec_irradiance position intensity hr)
              (spec_response m hr (normalized (vsub position (hr_point hr))) view_vec)) \<and>
   (compatible_material hr = None \<longrightarrow>
      PointLight_Illuminate position intensity hr view_vec = Vec3r 0 0 0) \<and>
   Evaluate m hr light_vec view_vec = spec_response m hr light_vec view_vec"
  using PointLight_compatible [of hr m position intensity view_vec]
    PointLight_incompatible [of hr position intensity view_vec]
    Evaluate_spec [of m hr light_vec view_vec]
  by blast

text \<open>
  The instance of the specification: a point light at \<open>(0, 0, 5)\<close> with intensity
  \<open>(1, 1, 1)\<close> over a flat surface at the origin with normal \<open>(0, 0, 1)\<close>, diffuse
  \<open>(1, 1, 1)\<close> and specular \<open>(0, 0, 0)\<close>, gives \<open>(1/25, 1/25, 1/25)\<close>; the same light on
  the example sphere with the material named "Shiny" gives black.
\<close>

theorem PointLight_Illuminate_spec_witness:
  "compatible_material ex_flat_hit = Some ex_default_material \<and>
   spec_irradiance (Vec3r 0 0 5) (Vec3r 1 1 1) ex_flat_hit = Vec3r (1/25) (1/25) (1/25) \<and>
   spec_response ex_default_material ex_flat_hit
      (normalized (vsub (Vec3r 0 0 5) (hr_point ex_flat_hit))) (Vec3r 0 0 1) = Vec3r 1 1 1 \<and>
   PointLight_Illuminate (Vec3r 0 0 5) (Vec3r 1 1 1) ex_flat_hit (Vec3r 0 0 1)
     = Vec3r (1/25) (1/25) (1/25) \<and>
   compatible_material (ex_hit ex_named_material) = None \<and>
   PointLight_Illuminate (Vec3r 0 0 5) (Vec3r 1 1 1) (ex_hit ex_named_material) (Vec3r 0 0 1)
     = Vec3r 0 0 0"
proof -
  have irr: "spec_irradiance (Vec3r 0 0 5) (Vec3r 1 1 1) ex_flat_hit
               = Vec3r (1/25) (1/25) (1/25)"
    by (simp add: spec_irradiance_def ex_flat_hit_def normalized_def squaredNorm_def)
  have resp: "spec_response ex_default_material ex_flat_hit
      (normalized (vsub (Vec3r 0 0 5) (hr_point ex_flat_hit))) (Vec3r 0 0 1) = Vec3r 1 1 1"
    by (simp add: spec_response_def ex_flat_hit_def ex_default_material_def
          PhongMaterial_new_def)
  have lit: "PointLight_Illuminate (Vec3r 0 0 5) (Vec3r 1 1 1) ex_flat_hit (Vec3r 0 0 1)
     = Vec3r (1/25) (1/25) (1/25)"
    using PointLight_Illuminate_spec [where hr = ex_flat_hit and m = ex_default_material
        and position = "Vec3r 0 0 5" and intensity = "Vec3r 1 1 1"
        and view_vec = "Vec3r 0 0 1"] compatible_flat irr resp
    by simp
  have dark: "PointLight_Illuminate (Vec3r 0 0 5) (Vec3r 1 1 1) (ex_hit ex_named_material)
      (Vec3r 0 0 1) = Vec3r 0 0 0"
    using PointLight_Illuminate_spec [where hr = "ex_hit ex_named_material"
        and position = "Vec3r 0 0 5" and intensity = "Vec3r 1 1 1"
        and view_vec = "Vec3r 0 0 1"] compatible_named
    by simp
  show ?thesis using compatible_flat irr resp lit compatible_named dark by simp
qed

text \<open>
  Claim C7, as stated: for every hit record, \<^verbatim>\<open>AmbientLight::Illuminate\<close> returns the
  product of the light's colour and the ambient coefficient of the hit surface's
  material. It fails where the material does not pass the name test: the example sphere
  carries a \<^verbatim>\<open>PhongMaterial\<close> named "Shiny" with ambient coefficient \<open>(1, 1/2, 0)\<close>; under
  the ambient light \<open>(1/5, 1/5, 1/5)\<close> the product is \<open>(1/5, 1/10, 0)\<close> and the call
  returns \<open>(0, 0, 0)\<close>.
\<close>

theorem AmbientLight_Illuminate_counterexample:
  "hr_surface (ex_hit ex_named_material)
     = Some (Sphere (ex_sphere (Some (PhongMaterial ex_named_material)))) \<and>
   GetMaterial (Sphere (ex_sphere (Some (PhongMaterial ex_named_material))))
     = Some (PhongMaterial ex_named_material) \<and>
   cwise (Vec3r (1/5) (1/5) (1/5)) (mat_ambient ex_named_material) = Vec3r (1/5) (1/10) 0 \<and>
   AmbientLight_Illuminate (Vec3r (1/5) (1/5) (1/5)) (ex_hit ex_named_material)
      (Vec3r 0 0 (-1)) = Vec3r 0 0 0 \<and>
   AmbientLight_Illuminate (Vec3r (1/5) (1/5) (1/5)) (ex_hit ex_named_material)
      (Vec3r 0 0 (-1)) \<noteq> cwise (Vec3r (1/5) (1/5) (1/5)) (mat_ambient ex_named_material)"
proof -
  have dark: "AmbientLight_Illuminate (Vec3r (1/5) (1/5) (1/5)) (ex_hit ex_named_material)
      (Vec3r 0 0 (-1)) = Vec3r 0 0 0"
    by (rule AmbientLight_incompatible [OF compatible_named])
  have prod: "cwise (Vec3r (1/5) (1/5) (1/5)) (mat_ambient ex_named_material)
      = Vec3r (1/5) (1/10) 0"
    by (simp add: ex_named_material_def PhongMaterial_new_def)
  have sf: "hr_surface (ex_hit ex_named_material)
     = Some (Sphere (ex_sphere (Some (PhongMaterial ex_named_material))))"
    by (simp add: ex_hit_eq)
  have mt: "GetMaterial (Sphere (ex_sphere (Some (PhongMaterial ex_named_material))))
     = Some (PhongMaterial ex_named_material)"
    by (simp add: ex_sphere_def)
  show ?thesis using dark prod sf mt by simp
qed

text \<open>
  Claim C7, amended. For every hit record whose surface carries a compatible material
  (a \<^verbatim>\<open>PhongMaterial\<close> named "PhongMaterial"), \<^verbatim>\<open>AmbientLight::Illuminate\<close> returns the
  element-wise product of the light's colour and the material's ambient coefficient;
  for every other hit record it returns black. In both cases the result does not depend
  on the ray parameter, the hit point, the normal or the view vector.
\<close>

theorem AmbientLight_Illuminate_spec:
  "(compatible_material hr = Some m \<longrightarrow>
      AmbientLight_Illuminate ambient hr view_vec = cwise ambient (mat_ambient m)) \<and>
   (compatible_material hr = None \<longrightarrow>
      AmbientLight_Illuminate ambient hr view_vec = Vec3r 0 0 0) \<and>
   AmbientLight_Illuminate ambient (hr\<lparr>hr_ray_t := t, hr_point := p, hr_normal := n\<rparr>) view_vec'
     = AmbientLight_Illuminate ambient hr view_vec"
  using AmbientLight_compatible [of hr m ambient view_vec]
    AmbientLight_incompatible [of hr ambient view_vec]
  by (simp add: AmbientLight_Illuminate_def)

text \<open>
  The instance of the specification: ambient light \<open>(1/5, 1/5, 1/5)\<close> and a material
  named "PhongMaterial" with ambient coefficient \<open>(1, 1/2, 0)\<close> give \<open>(1/5, 1/10, 0)\<close>.
\<close>

theorem AmbientLight_Illuminate_spec_witness:
  "compatible_material (ex_hit ex_default_material) = Some ex_default_material \<and>
   mat_ambient ex_default_material = Vec3r 1 (1/2) 0 \<and>
   AmbientLight_Illuminate (Vec3r (1/5) (1/5) (1/5)) (ex_hit ex_default_material)
      (Vec3r 0 0 (-1)) = Vec3r (1/5) (1/10) 0 \<and>
   compatible_material (ex_hit ex_named_material) = None \<and>
   AmbientLight_Illuminate (Vec3r (1/5) (1/5) (1/5)) (ex_hit ex_named_material)
      (Vec3r 0 0 (-1)) = Vec3r 0 0 0"
proof -
  have amb: "mat_ambient ex_default_material = Vec3r 1 (1/2) 0"
    by (simp add: ex_default_material_def PhongMaterial_new_def)
  have lit: "AmbientLight_Illuminate (Vec3r (1/5) (1/5) (1/5)) (ex_hit ex_default_material)
      (Vec3r 0 0 (-1)) = Vec3r (1/5) (1/10) 0"
    using AmbientLight_Illuminate_spec [where hr = "ex_hit ex_default_material"
        and m = ex_default_material and ambient = "Vec3r (1/5) (1/5) (1/5)"
        and view_vec = "Vec3r 0 0 (-1)"] compatible_default amb
    by simp
  have dark: "AmbientLight_Illuminate (Vec3r (1/5) (1/5) (1/5)) (ex_hit ex_named_material)
      (Vec3r 0 0 (-1)) = Vec3r 0 0 0"
    using AmbientLight_Illuminate_spec [where hr = "ex_hit ex_named_material"
        and ambient = "Vec3r (1/5) (1/5) (1/5)" and view_vec = "Vec3r 0 0 (-1)"]
      compatible_named
    by simp
  show ?thesis using compatible_default amb lit compatible_named dark by simp
qed

text \<open>Both constructors name the material "PhongMaterial" exactly when the name given is
  empty, and keep any other name.\<close>

lemma constructed_name:
  "mat_name (PhongMaterial_new a d s sh mi name) = (if name = [] then ''PhongMaterial'' else name)"
  "mat_name (PhongMaterial_named name members) = (if name = [] then ''PhongMaterial'' else name)"
  by (simp_all add: PhongMaterial_new_def PhongMaterial_named_def)

lemma compatible_by_name:
  assumes "hr_surface hr = Some surface" and "GetMaterial surface = Some (PhongMaterial mat)"
  shows "compatible_material hr = (if mat_name mat = ''PhongMaterial'' then Some mat else None)"
  using assms by (simp add: compatible_material_def)

text \<open>
  Claim C9. Compatibility is decided by the material's name, not by its being a
  \<^verbatim>\<open>PhongMaterial\<close>. A \<^verbatim>\<open>PhongMaterial\<close> constructed with a non-empty name keeps that name,
  and one constructed with the empty name is named "PhongMaterial". For every hit whose
  surface's material is a \<^verbatim>\<open>PhongMaterial\<close> with a name other than "PhongMaterial",
  \<^verbatim>\<open>RayColor\<close> yields \<open>(1, 0, 0)\<close> and both \<^verbatim>\<open>Illuminate\<close> methods return \<open>(0, 0, 0)\<close>. When
  the name is "PhongMaterial" the hit is shaded: \<^verbatim>\<open>RayColor\<close> sums the lights, the point
  light returns irradiance times response and the ambient light its colour times the
  ambient coefficient.
\<close>

theorem material_name_gate:
  "mat_name (PhongMaterial_new a d s sh mi name) = (if name = [] then ''PhongMaterial'' else name) \<and>
   mat_name (PhongMaterial_named name members) = (if name = [] then ''PhongMaterial'' else name) \<and>
   (Hit scene r kEpsilon kInfinity HitRecord_empty = (True, hr) \<and>
    hr_surface hr = Some surface \<and> GetMaterial surface = Some (PhongMaterial mat) \<and>
    mat_name mat \<noteq> ''PhongMaterial'' \<longrightarrow>
      RayColor kEpsilon kInfinity r scene lights = Inr (True, Vec3r 1 0 0) \<and>
      PointLight_Illuminate position intensity hr view_vec = Vec3r 0 0 0 \<and>
      AmbientLight_Illuminate ambient hr view_vec = Vec3r 0 0 0) \<and>
   (Hit scene r kEpsilon kInfinity HitRecord_empty = (True, hr) \<and>
    hr_surface hr = Some surface \<and> GetMaterial surface = Some (PhongMaterial mat) \<and>
    mat_name mat = ''PhongMaterial'' \<longrightarrow>
      RayColor kEpsilon kInfinity r scene lights =
        Inr (True, vsum (map (\<lambda>l. Illuminate l hr (smul (-1) (ray_dir r))) lights)) \<and>
      PointLight_Illuminate position intensity hr view_vec =
        cwise (spec_irradiance position intensity hr)
              (spec_response mat hr (normalized (vsub position (hr_point hr))) view_vec) \<and>
      AmbientLight_Illuminate ambient hr view_vec = cwise ambient (mat_ambient mat))"
proof -
  have gate: "RayColor kEpsilon kInfinity r scene lights = Inr (True, Vec3r 1 0 0) \<and>
      PointLight_Illuminate position intensity hr view_vec = Vec3r 0 0 0 \<and>
      AmbientLight_Illuminate ambient hr view_vec = Vec3r 0 0 0"
    if "Hit scene r kEpsilon kInfinity HitRecord_empty = (True, hr)"
      "hr_surface hr = Some surface" "GetMaterial surface = Some (PhongMaterial mat)"
      "mat_name mat \<noteq> ''PhongMaterial''"
  proof -
    have "compatible_material hr = None"
      using compatible_by_name [OF that(2) that(3)] that(4) by simp
    then show ?thesis
      using RayColor_incompatible [OF that(1) that(2)] PointLight_incompatible
        AmbientLight_incompatible by simp
  qed
  have shade: "RayColor kEpsilon kInfinity r scene lights =
        Inr (True, vsum (map (\<lambda>l. Illuminate l hr (smul (-1) (ray_dir r))) lights)) \<and>
      PointLight_Illuminate position intensity hr view_vec =
        cwise (spec_irradiance position intensity hr)
              (spec_response mat hr (normalized (vsub position (hr_point hr))) view_vec) \<and>
      AmbientLight_Illuminate ambient hr view_vec = cwise ambient (mat_ambient mat)"
    if "Hit scene r kEpsilon kInfinity HitRecord_empty = (True, hr)"
      "hr_surface hr = Some surface" "GetMaterial surface = Some (PhongMaterial mat)"
      "mat_name mat = ''PhongMaterial''"
  proof -
    have c: "compatible_material hr = Some mat"
      using compatible_by_name [OF that(2) that(3)] that(4) by simp
    show ?thesis
      using RayColor_compatible [OF that(1) c] PointLight_compatible [OF c]
        AmbientLight_compatible [OF c] by simp
  qed
  show ?thesis
    using gate shade constructed_name(1) [of a d s sh mi name]
      constructed_name(2) [of name members]
    by blast
qed

text \<open>
  The example sphere under an ambient light: with the material constructed under the
  name "Shiny" the colour is \<open>(1, 0, 0)\<close> and both lights give black; with the material
  constructed under the empty name the colour is \<open>(1/5, 1/10, 0)\<close>.
\<close>

theorem material_name_gate_witness:
  "mat_name ex_named_material = ''Shiny'' \<and>
   mat_name ex_default_material = ''PhongMaterial'' \<and>
   Hit (SurfaceList [Sphere (ex_sphere (Some (PhongMaterial ex_named_material)))] None)
      ex_ray (1/1000) 1000 HitRecord_empty = (True, ex_hit ex_named_material) \<and>
   RayColor (1/1000) 1000 ex_ray
      (SurfaceList [Sphere (ex_sphere (Some (PhongMaterial ex_named_material)))] None)
      [AmbientLight (Vec3r (1/5) (1/5) (1/5))] = Inr (True, Vec3r 1 0 0) \<and>
   PointLight_Illuminate (Vec3r 0 0 0) (Vec3r 1 1 1) (ex_hit ex_named_material)
      (Vec3r 0 0 (-1)) = Vec3r 0 0 0 \<and>
   AmbientLight_Illuminate (Vec3r (1/5) (1/5) (1/5)) (ex_hit ex_named_material)
      (Vec3r 0 0 (-1)) = Vec3r 0 0 0 \<and>
   Hit (SurfaceList [Sphere (ex_sphere (Some (PhongMaterial ex_default_material)))] None)
      ex_ray (1/1000) 1000 HitRecord_empty = (True, ex_hit ex_default_material) \<and>
   RayColor (1/1000) 1000 ex_ray
      (SurfaceList [Sphere (ex_sphere (Some (PhongMaterial ex_default_material)))] None)
      [AmbientLight (Vec3r (1/5) (1/5) (1/5))] = Inr (True, Vec3r (1/5) (1/10) 0) \<and>
   AmbientLight_Illuminate (Vec3r (1/5) (1/5) (1/5)) (ex_hit ex_default_material)
      (Vec3r 0 0 (-1)) = Vec3r (1/5) (1/10) 0"
proof -
  let ?amb = "[AmbientLight (Vec3r (1/5) (1/5) (1/5))]"
  let ?dflt = "SurfaceList [Sphere (ex_sphere (Some (PhongMaterial ex_default_material)))] None"
  let ?named = "SurfaceList [Sphere (ex_sphere (Some (PhongMaterial ex_named_material)))] None"
  have hd: "Hit ?dflt ex_ray (1/1000) 1000 HitRecord_empty = (True, ex_hit ex_default_material)"
    by (rule ex_list_hit) simp_all
  have hn: "Hit ?named ex_ray (1/1000) 1000 HitRecord_empty = (True, ex_hit ex_named_material)"
    by (rule ex_list_hit) simp_all
  have sn: "hr_surface (ex_hit ex_named_material)
              = Some (Sphere (ex_sphere (Some (PhongMaterial ex_named_material))))"
    and sd: "hr_surface (ex_hit ex_default_material)
              = Some (Sphere (ex_sphere (Some (PhongMaterial ex_default_material))))"
    by (simp_all add: ex_hit_eq)
  have mn: "GetMaterial (Sphere (ex_sphere (Some (PhongMaterial ex_named_material))))
      = Some (PhongMaterial ex_named_material)"
    and md: "GetMaterial (Sphere (ex_sphere (Some (PhongMaterial ex_default_material))))
      = Some (PhongMaterial ex_default_material)"
    by (simp_all add: ex_sphere_def)
  have nn: "mat_name ex_named_material = ''Shiny''"
    and nd: "mat_name ex_default_material = ''PhongMaterial''"
    and ad: "mat_ambient ex_default_material = Vec3r 1 (1/2) 0"
    by (simp_all add: ex_named_material_def ex_default_material_def PhongMaterial_new_def)
  have g: "RayColor (1/1000) 1000 ex_ray ?named ?amb = Inr (True, Vec3r 1 0 0) \<and>
      PointLight_Illuminate (Vec3r 0 0 0) (Vec3r 1 1 1) (ex_hit ex_named_material)
        (Vec3r 0 0 (-1)) = Vec3r 0 0 0 \<and>
      AmbientLight_Illuminate (Vec3r (1/5) (1/5) (1/5)) (ex_hit ex_named_material)
        (Vec3r 0 0 (-1)) = Vec3r 0 0 0"
    using material_name_gate [where scene = ?named and r = ex_ray
        and kEpsilon = "1/1000" and kInfinity = 1000 and hr = "ex_hit ex_named_material"
        and surface = "Sphere (ex_sphere (Some (PhongMaterial ex_named_material)))"
        and mat = ex_named_material and lights = ?amb and position = "Vec3r 0 0 0"
        and intensity = "Vec3r 1 1 1" and view_vec = "Vec3r 0 0 (-1)"
        and ambient = "Vec3r (1/5) (1/5) (1/5)"] hn sn mn nn
    by simp
  have e: "RayColor (1/1000) 1000 ex_ray ?dflt ?amb =
        Inr (True, vsum (map (\<lambda>l. Illuminate l (ex_hit ex_default_material)
                                      (smul (-1) (ray_dir ex_ray))) ?amb)) \<and>
      AmbientLight_Illuminate (Vec3r (1/5) (1/5) (1/5)) (ex_hit ex_default_material)
        (Vec3r 0 0 (-1)) = cwise (Vec3r (1/5) (1/5) (1/5)) (mat_ambient ex_default_material)"
    using material_name_gate [where scene = ?dflt and r = ex_ray
        and kEpsilon = "1/1000" and kInfinity = 1000 and hr = "ex_hit ex_default_material"
        and surface = "Sphere (ex_sphere (Some (PhongMaterial ex_default_material)))"
        and mat = ex_default_material and lights = ?amb and position = "Vec3r 0 0 0"
        and intensity = "Vec3r 1 1 1" and view_vec = "Vec3r 0 0 (-1)"
        and ambient = "Vec3r (1/5) (1/5) (1/5)"] hd sd md nd
    by simp
  have amb: "AmbientLight_Illuminate (Vec3r (1/5) (1/5) (1/5)) (ex_hit ex_default_material) v
               = Vec3r (1/5) (1/10) 0" for v
    by (simp add: AmbientLight_compatible [OF compatible_default] ad)
  show ?thesis using hd hn g e nn nd by (simp add: amb)
qed

section \<open>Surface lists\<close>

subsection \<open>The returned flag\<close>

text \<open>Whether a surface reports a hit does not depend on the record it is given.\<close>

lemma Sphere_Hit_flag: "fst (Sphere_Hit s r tmin tmax hr) = fst (Sphere_Hit s r tmin tmax hr')"
  by (simp add: Sphere_Hit_def Let_def)

lemma Triangle_Hit_flag:
  "fst (Triangle_Hit t r tmin tmax hr) = fst (Triangle_Hit t r tmin tmax hr')"
  by (simp add: Triangle_Hit_def Let_def split: option.splits prod.splits)

lemma loop_flag:
  assumes "\<And>c hr hr'. c \<in> set cs \<Longrightarrow> fst (Hit c r tmin tmax hr) = fst (Hit c r tmin tmax hr')"
  shows "fst (SurfaceList_loop cs r tmin tmax a out best) =
           (a \<or> (\<exists>c\<in>set cs. fst (Hit c r tmin tmax b0)))"
  using assms
proof (induction cs arbitrary: a out best)
  case Nil
  show ?case by simp
next
  case (Cons c cs)
  have ind: "fst (Hit c r tmin tmax best) = fst (Hit c r tmin tmax b0)"
    by (rule Cons.prems) simp
  have IH: "\<And>a out best. fst (SurfaceList_loop cs r tmin tmax a out best) =
           (a \<or> (\<exists>c\<in>set cs. fst (Hit c r tmin tmax b0)))"
    by (rule Cons.IH) (simp add: Cons.prems)
  obtain b best' where h: "Hit c r tmin tmax best = (b, best')"
    by (cases "Hit c r tmin tmax best")
  show ?case
  proof (cases b)
    case True
    with h ind show ?thesis by (simp add: IH)
  next
    case False
    with h ind show ?thesis by (simp add: IH)
  qed
qed

lemma Hit_flag: "fst (Hit s r tmin tmax hr) = fst (Hit s r tmin tmax hr')"
proof (induction s arbitrary: hr hr')
  case (Sphere s)
  show ?case by (simp add: Sphere_Hit_flag [of s r tmin tmax hr hr'])
next
  case (Triangle t)
  show ?case by (simp add: Triangle_Hit_flag [of t r tmin tmax hr hr'])
next
  case (SurfaceList cs m)
  have "fst (SurfaceList_loop cs r tmin tmax a out best) =
           (a \<or> (\<exists>c\<in>set cs. fst (Hit c r tmin tmax HitRecord_empty)))" for a out best
    by (rule loop_flag) (rule SurfaceList.IH)
  then show ?case by (simp add: split_beta)
qed

text \<open>A list reports a hit exactly when one of its children does.\<close>

lemma SurfaceList_flag:
  "fst (Hit (SurfaceList cs m) r tmin tmax hr) \<longleftrightarrow> (\<exists>c\<in>set cs. fst (Hit c r tmin tmax b0))"
proof -
  have "fst (SurfaceList_loop cs r tmin tmax a out best) =
           (a \<or> (\<exists>c\<in>set cs. fst (Hit c r tmin tmax b0)))" for a out best
    by (rule loop_flag) (rule Hit_flag)
  then show ?thesis by (simp add: split_beta)
qed

subsection \<open>The caller's record\<close>

lemma loop_no_hit:
  "(\<forall>c\<in>set cs. \<forall>b. \<not> fst (Hit c r tmin tmax b)) \<Longrightarrow>
   fst (SurfaceList_loop cs r tmin tmax a out best) = a \<and>
   fst (snd (SurfaceList_loop cs r tmin tmax a out best)) = out"
proof (induction cs arbitrary: best)
  case Nil
  show ?case by simp
next
  case (Cons c cs)
  obtain b best' where h: "Hit c r tmin tmax best = (b, best')"
    by (cases "Hit c r tmin tmax best")
  have "\<not> fst (Hit c r tmin tmax best)" using Cons.prems by simp
  then have "\<not> b" using h by simp
  moreover have "\<forall>c\<in>set cs. \<forall>b. \<not> fst (Hit c r tmin tmax b)" using Cons.prems by simp
  ultimately show ?case using h Cons.IH by simp
qed

lemma copy_best_ray_t: "hr_ray_t (copy_best r best out) = hr_ray_t best"
  by (simp add: copy_best_def SetNormal_def)

text \<open>Each copy lowers the stored parameter: the loop leaves the caller's record as it
  found it, or with a strictly smaller \<open>hr_ray_t\<close>.\<close>

lemma loop_out_decreases:
  "fst (snd (SurfaceList_loop cs r tmin tmax a out best)) = out \<or>
   hr_ray_t (fst (snd (SurfaceList_loop cs r tmin tmax a out best))) < hr_ray_t out"
proof (induction cs arbitrary: a out best)
  case Nil
  show ?case by simp
next
  case (Cons c cs)
  obtain b best' where h: "Hit c r tmin tmax best = (b, best')"
    by (cases "Hit c r tmin tmax best")
  show ?case
  proof (cases "b \<and> hr_ray_t best' < hr_ray_t out")
    case True
    then show ?thesis
      using h Cons.IH [of True "copy_best r best' out" best']
      by (auto simp add: copy_best_ray_t)
  next
    case False
    then show ?thesis
      using h Cons.IH [of True out best'] Cons.IH [of a out best']
      by (cases b) auto
  qed
qed

text \<open>
  Claim C10. \<^verbatim>\<open>SurfaceList::Hit\<close> writes \<open>tmax\<close> into the caller's record before it tests
  any child: the parameter the record came with is lost. When no child reports a hit the
  call returns false and the record comes back with \<open>hr_ray_t = tmax\<close> and its other
  fields as they were. A child's hit is copied only when its parameter is strictly
  smaller than the stored one; otherwise the record stays as it is. So the record comes
  back either untouched apart from \<open>hr_ray_t = tmax\<close>, or with a parameter strictly below
  \<open>tmax\<close>.
\<close>

theorem SurfaceList_Hit_writes_tmax:
  "Hit (SurfaceList cs m) r tmin tmax (hr\<lparr>hr_ray_t := x\<rparr>) = Hit (SurfaceList cs m) r tmin tmax hr \<and>
   Hit (SurfaceList [] m) r tmin tmax hr = (False, hr\<lparr>hr_ray_t := tmax\<rparr>) \<and>
   ((\<forall>c\<in>set cs. \<forall>b. \<not> fst (Hit c r tmin tmax b)) \<longrightarrow>
      Hit (SurfaceList cs m) r tmin tmax hr = (False, hr\<lparr>hr_ray_t := tmax\<rparr>)) \<and>
   (Hit c r tmin tmax best = (True, best') \<and> hr_ray_t best' < hr_ray_t out \<longrightarrow>
      SurfaceList_loop (c # rest) r tmin tmax a out best =
        SurfaceList_loop rest r tmin tmax True (copy_best r best' out) best') \<and>
   (Hit c r tmin tmax best = (True, best') \<and> \<not> hr_ray_t best' < hr_ray_t out \<longrightarrow>
      SurfaceList_loop (c # rest) r tmin tmax a out best =
        SurfaceList_loop rest r tmin tmax True out best') \<and>
   (Hit c r tmin tmax best = (False, best') \<longrightarrow>
      SurfaceList_loop (c # rest) r tmin tmax a out best =
        SurfaceList_loop rest r tmin tmax a out best') \<and>
   (snd (Hit (SurfaceList cs m) r tmin tmax hr) = hr\<lparr>hr_ray_t := tmax\<rparr> \<or>
    hr_ray_t (snd (Hit (SurfaceList cs m) r tmin tmax hr)) < tmax)"
proof -
  have none: "Hit (SurfaceList cs m) r tmin tmax hr = (False, hr\<lparr>hr_ray_t := tmax\<rparr>)"
    if "\<forall>c\<in>set cs. \<forall>b. \<not> fst (Hit c r tmin tmax b)"
    using loop_no_hit [OF that, of False "hr\<lparr>hr_ray_t := tmax\<rparr>" HitRecord_empty]
    by (simp add: split_beta prod_eq_iff)
  have dec: "snd (Hit (SurfaceList cs m) r tmin tmax hr) = hr\<lparr>hr_ray_t := tmax\<rparr> \<or>
    hr_ray_t (snd (Hit (SurfaceList cs m) r tmin tmax hr)) < tmax"
    using loop_out_decreases [of cs r tmin tmax False "hr\<lparr>hr_ray_t := tmax\<rparr>" HitRecord_empty]
    by (simp add: split_beta)
  show ?thesis using none dec by simp
qed

text \<open>
  A list whose only child is a sphere off the ray: the call returns false and the empty
  record comes back with \<open>hr_ray_t = 10\<close>; the loop leaves the record as it is. A list
  whose only child is the example sphere, hit at parameter 4: with \<open>tmax = 10\<close> the hit
  is copied, with \<open>tmax = 4\<close> it is not.
\<close>

theorem SurfaceList_Hit_writes_tmax_witness:
  "(\<forall>b. \<not> fst (Hit (Sphere ex_far_sphere) ex_ray 0 10 b)) \<and>
   Hit (SurfaceList [Sphere ex_far_sphere] None) ex_ray 0 10 HitRecord_empty
     = (False, HitRecord_empty\<lparr>hr_ray_t := 10\<rparr>) \<and>
   Hit (Sphere (ex_sphere None)) ex_ray 0 10 HitRecord_empty
     = (True, \<lparr>hr_ray_t = 4, hr_point = Vec3r 0 0 4, hr_normal = Vec3r 0 0 (-1),
               hr_surface = Some (Sphere (ex_sphere None))\<rparr>) \<and>
   SurfaceList_loop [Sphere (ex_sphere None)] ex_ray 0 10 False
       (HitRecord_empty\<lparr>hr_ray_t := 10\<rparr>) HitRecord_empty
     = (True, \<lparr>hr_ray_t = 4, hr_point = Vec3r 0 0 4, hr_normal = Vec3r 0 0 (-1),
               hr_surface = Some (Sphere (ex_sphere None))\<rparr>,
              \<lparr>hr_ray_t = 4, hr_point = Vec3r 0 0 4, hr_normal = Vec3r 0 0 (-1),
               hr_surface = Some (Sphere (ex_sphere None))\<rparr>) \<and>
   SurfaceList_loop [Sphere (ex_sphere None)] ex_ray 0 4 False
       (HitRecord_empty\<lparr>hr_ray_t := 4\<rparr>) HitRecord_empty
     = (True, HitRecord_empty\<lparr>hr_ray_t := 4\<rparr>,
              \<lparr>hr_ray_t = 4, hr_point = Vec3r 0 0 4, hr_normal = Vec3r 0 0 (-1),
               hr_surface = Some (Sphere (ex_sphere None))\<rparr>) \<and>
   SurfaceList_loop [Sphere ex_far_sphere] ex_ray 0 10 False
       (HitRecord_empty\<lparr>hr_ray_t := 10\<rparr>) HitRecord_empty
     = (False, HitRecord_empty\<lparr>hr_ray_t := 10\<rparr>, HitRecord_empty)"
proof -
  let ?full = "\<lparr>hr_ray_t = 4, hr_point = Vec3r 0 0 4, hr_normal = Vec3r 0 0 (-1),
                hr_surface = Some (Sphere (ex_sphere None))\<rparr>"
  have far: "\<forall>b. \<not> fst (Hit (Sphere ex_far_sphere) ex_ray 0 10 b)"
    by (simp add: ex_far_sphere_miss)
  then have far': "\<forall>c\<in>set [Sphere ex_far_sphere]. \<forall>b. \<not> fst (Hit c ex_ray 0 10 b)"
    by simp
  have h10: "Hit (Sphere (ex_sphere None)) ex_ray 0 10 HitRecord_empty = (True, ?full)"
    by (simp add: ex_sphere_hit HitRecord_empty_def)
  have h4: "Hit (Sphere (ex_sphere None)) ex_ray 0 4 HitRecord_empty = (True, ?full)"
    by (simp add: ex_sphere_hit HitRecord_empty_def)
  have cp: "copy_best ex_ray ?full (HitRecord_empty\<lparr>hr_ray_t := 10\<rparr>) = ?full"
    by (simp add: copy_best_def SetNormal_def HitRecord_empty_def ex_ray_def Ray_def norm3_def
          squaredNorm_def)
  have w1: "Hit (SurfaceList [Sphere ex_far_sphere] None) ex_ray 0 10 HitRecord_empty
     = (False, HitRecord_empty\<lparr>hr_ray_t := 10\<rparr>)"
    using SurfaceList_Hit_writes_tmax [where cs = "[Sphere ex_far_sphere]" and r = ex_ray
        and tmin = 0 and tmax = 10 and hr = HitRecord_empty and m = None] far'
    by blast
  have w2: "SurfaceList_loop [Sphere (ex_sphere None)] ex_ray 0 10 False
       (HitRecord_empty\<lparr>hr_ray_t := 10\<rparr>) HitRecord_empty = (True, ?full, ?full)"
    using SurfaceList_Hit_writes_tmax [where c = "Sphere (ex_sphere None)" and r = ex_ray
        and tmin = 0 and tmax = 10 and best = HitRecord_empty and best' = ?full
        and out = "HitRecord_empty\<lparr>hr_ray_t := 10\<rparr>" and rest = "[]" and a = False] h10 cp
    by simp
  have w3: "SurfaceList_loop [Sphere (ex_sphere None)] ex_ray 0 4 False
       (HitRecord_empty\<lparr>hr_ray_t := 4\<rparr>) HitRecord_empty
     = (True, HitRecord_empty\<lparr>hr_ray_t := 4\<rparr>, ?full)"
    using SurfaceList_Hit_writes_tmax [where c = "Sphere (ex_sphere None)" and r = ex_ray
        and tmin = 0 and tmax = 4 and best = HitRecord_empty and best' = ?full
        and out = "HitRecord_empty\<lparr>hr_ray_t := 4\<rparr>" and rest = "[]" and a = False] h4
    by simp
  have hf: "Hit (Sphere ex_far_sphere) ex_ray 0 10 HitRecord_empty = (False, HitRecord_empty)"
    by (simp add: ex_far_sphere_miss)
  have w4: "SurfaceList_loop [Sphere ex_far_sphere] ex_ray 0 10 False
       (HitRecord_empty\<lparr>hr_ray_t := 10\<rparr>) HitRecord_empty
     = (False, HitRecord_empty\<lparr>hr_ray_t := 10\<rparr>, HitRecord_empty)"
    using SurfaceList_Hit_writes_tmax [where c = "Sphere ex_far_sphere" and r = ex_ray
        and tmin = 0 and tmax = 10 and best = HitRecord_empty and best' = HitRecord_empty
        and out = "HitRecord_empty\<lparr>hr_ray_t := 10\<rparr>" and rest = "[]" and a = False] hf
    by simp
  show ?thesis using far w1 h10 w2 w3 w4 by simp
qed

text \<open>
  Claim C1. The claim: \<^verbatim>\<open>SurfaceList::Hit\<close> returns true exactly when a child reports a
  hit, and the record then reflects the child hit with the smallest parameter. The
  code: the record starts at \<open>hr_ray_t = tmax\<close> and a child's hit is copied only under a
  strict comparison, while the children accept a parameter equal to \<open>tmax\<close>. The sphere
  of radius 1 around \<open>(0, 0, 5)\<close> is hit by the ray from the origin along \<open>z\<close> at
  parameter 4, which \<^verbatim>\<open>Sphere::Hit\<close> reports for the range \<open>[0, 4]\<close> with the point
  \<open>(0, 0, 4)\<close>, the normal \<open>(0, 0, -1)\<close> and the sphere. The list holding this sphere
  returns true for the same range and hands back the caller's empty record with only
  \<open>hr_ray_t\<close> set: the point and the normal are zero and the surface pointer is null.
  The rest of the claim holds on the code: the flag is \<open>SurfaceList_flag\<close>, and for a
  nearest hit strictly below \<open>tmax\<close> the record is that of the first nearest child
  (\<open>SurfaceList_Hit_reflects_nearest\<close> below).
\<close>

theorem SurfaceList_Hit_at_tmax:
  "Hit (Sphere (ex_sphere None)) ex_ray 0 4 HitRecord_empty
     = (True, \<lparr>hr_ray_t = 4, hr_point = Vec3r 0 0 4, hr_normal = Vec3r 0 0 (-1),
               hr_surface = Some (Sphere (ex_sphere None))\<rparr>) \<and>
   Hit (SurfaceList [Sphere (ex_sphere None)] None) ex_ray 0 4 HitRecord_empty
     = (True, \<lparr>hr_ray_t = 4, hr_point = Vec3r 0 0 0, hr_normal = Vec3r 0 0 0,
               hr_surface = None\<rparr>)"
  by (simp add: ex_sphere_hit HitRecord_empty_def zero3_def)

lemma ex_prev_hit_eq:
  "ex_prev_hit = \<lparr>hr_ray_t = 4, hr_point = Vec3r 0 0 6, hr_normal = Vec3r 0 0 1,
                  hr_surface = Some (Sphere (ex_sphere None))\<rparr>"
  by (simp add: ex_prev_hit_def sphere_eval ex_sphere_def ex_back_ray_def HitRecord_empty_def)

text \<open>
  Claim C4. The claim: after every successful \<^verbatim>\<open>Hit\<close> the normal in the record has unit
  length and \<open>normal \<cdot> (- direction) \<ge> 0\<close>. The code: a \<^verbatim>\<open>SurfaceList\<close> whose nearest child
  hit lies exactly at \<open>tmax\<close> returns true without writing the normal. For the list
  holding the example sphere, the ray from the origin along \<open>z\<close> and the range \<open>[0, 4]\<close>:
  given an empty record the call returns true with a normal of length 0; given the
  record of an earlier hit (the same sphere seen from behind, normal \<open>(0, 0, 1)\<close>) the
  call returns true with that normal, and \<open>normal \<cdot> (- direction) = -1\<close>. Everywhere
  else the claim holds for surfaces that satisfy the invariants of the data model
  (\<open>Hit_normal\<close>, \<open>Sphere_Hit_unit\<close> and \<open>Triangle_Hit_unit\<close> below).
\<close>

theorem SurfaceList_Hit_stale_normal:
  "fst (Hit (SurfaceList [Sphere (ex_sphere None)] None) ex_ray 0 4 HitRecord_empty) \<and>
   norm3 (hr_normal (snd (Hit (SurfaceList [Sphere (ex_sphere None)] None) ex_ray 0 4
                            HitRecord_empty))) = 0 \<and>
   fst (Hit (SurfaceList [Sphere (ex_sphere None)] None) ex_ray 0 4 ex_prev_hit) \<and>
   hr_normal (snd (Hit (SurfaceList [Sphere (ex_sphere None)] None) ex_ray 0 4 ex_prev_hit))
     = Vec3r 0 0 1 \<and>
   ray_dir ex_ray = Vec3r 0 0 1 \<and>
   dot (hr_normal (snd (Hit (SurfaceList [Sphere (ex_sphere None)] None) ex_ray 0 4
                          ex_prev_hit)))
       (smul (-1) (ray_dir ex_ray)) = - 1"
  by (simp add: ex_sphere_hit ex_prev_hit_eq)
     (simp add: HitRecord_empty_def zero3_def norm3_def squaredNorm_def ex_ray_def Ray_def)

subsection \<open>The nearest child\<close>

text \<open>A primitive that reports a hit overwrites every field of the record, with a
  parameter in range and a normal that does not point along the ray.\<close>

lemma dot_neg_left: "dot (smul (-1) a) b = - dot a b"
  by (cases a; cases b) simp

lemma SetNormal_oriented: "dot (hr_normal (SetNormal r n hr)) (ray_dir r) \<le> 0"
  by (simp add: SetNormal_def dot_neg_left)

lemma Sphere_Hit_filled:
  assumes "fst (Sphere_Hit s r tmin tmax b)"
  shows "snd (Sphere_Hit s r tmin tmax b') = snd (Sphere_Hit s r tmin tmax b)"
    and "dot (hr_normal (snd (Sphere_Hit s r tmin tmax b))) (ray_dir r) \<le> 0"
    and "hr_ray_t (snd (Sphere_Hit s r tmin tmax b)) \<le> tmax"
  using assms
  by (auto simp add: Sphere_Hit_def Let_def SetNormal_def dot_neg_left split: if_splits)

lemma Triangle_Hit_filled:
  assumes "fst (Triangle_Hit t r tmin tmax b)"
  shows "snd (Triangle_Hit t r tmin tmax b') = snd (Triangle_Hit t r tmin tmax b)"
    and "dot (hr_normal (snd (Triangle_Hit t r tmin tmax b))) (ray_dir r) \<le> 0"
    and "hr_ray_t (snd (Triangle_Hit t r tmin tmax b)) \<le> tmax"
  using assms
  by (auto simp add: Triangle_Hit_def RayTriangleHit_def Let_def SetNormal_def dot_neg_left
        split: if_splits option.splits prod.splits)

text \<open>Copying a record whose normal is already oriented yields that record.\<close>

lemma copy_best_oriented:
  "dot (hr_normal h) (ray_dir r) \<le> 0 \<Longrightarrow> copy_best r h out = h"
  by (simp add: copy_best_def SetNormal_def)

text \<open>Two records with the same parameter lead \<open>nearest\<close> to the same result, unless no
  child hits below that parameter and each record is returned as it is.\<close>

lemma nearest_cases:
  assumes "hr_ray_t cur' = hr_ray_t cur"
  shows "(nearest cs r tmin tmax cur = cur \<and> nearest cs r tmin tmax cur' = cur') \<or>
         (nearest cs r tmin tmax cur' = nearest cs r tmin tmax cur \<and>
          hr_ray_t (nearest cs r tmin tmax cur) < hr_ray_t cur \<and>
          (\<exists>c\<in>set cs. Hit c r tmin tmax HitRecord_empty = (True, nearest cs r tmin tmax cur)))"
  using assms
proof (induction cs arbitrary: cur cur')
  case Nil
  show ?case by simp
next
  case (Cons c cs)
  obtain b h where h: "Hit c r tmin tmax HitRecord_empty = (b, h)"
    by (cases "Hit c r tmin tmax HitRecord_empty")
  show ?case
  proof (cases "b \<and> hr_ray_t h < hr_ray_t cur")
    case True
    then have n: "nearest (c # cs) r tmin tmax cur = nearest cs r tmin tmax h"
      "nearest (c # cs) r tmin tmax cur' = nearest cs r tmin tmax h"
      using h Cons.prems by simp_all
    from Cons.IH [of h h]
    have "nearest cs r tmin tmax h = h \<or>
          (hr_ray_t (nearest cs r tmin tmax h) < hr_ray_t h \<and>
           (\<exists>c\<in>set cs. Hit c r tmin tmax HitRecord_empty = (True, nearest cs r tmin tmax h)))"
      by auto
    then show ?thesis
    proof
      assume "nearest cs r tmin tmax h = h"
      then show ?thesis using n True h by simp
    next
      assume "hr_ray_t (nearest cs r tmin tmax h) < hr_ray_t h \<and>
           (\<exists>c\<in>set cs. Hit c r tmin tmax HitRecord_empty = (True, nearest cs r tmin tmax h))"
      then show ?thesis using n True by auto
    qed
  next
    case False
    then have n: "nearest (c # cs) r tmin tmax cur = nearest cs r tmin tmax cur"
      "nearest (c # cs) r tmin tmax cur' = nearest cs r tmin tmax cur'"
      using h Cons.prems by (cases b; simp)+
    from Cons.IH [OF Cons.prems] show ?thesis unfolding n by auto
  qed
qed

text \<open>When the children behave as \<open>Hit_filled\<close> below states, the loop computes
  \<open>nearest\<close>; the local record \<^verbatim>\<open>bestRecord\<close> does not influence the result.\<close>

lemma loop_nearest:
  assumes P: "\<And>c b b'. c \<in> set cs \<Longrightarrow> fst (Hit c r tmin tmax b) \<Longrightarrow>
      hr_ray_t (snd (Hit c r tmin tmax b')) = hr_ray_t (snd (Hit c r tmin tmax b)) \<and>
      (hr_ray_t (snd (Hit c r tmin tmax b)) < tmax \<longrightarrow>
         snd (Hit c r tmin tmax b') = snd (Hit c r tmin tmax b) \<and>
         dot (hr_normal (snd (Hit c r tmin tmax b))) (ray_dir r) \<le> 0)"
    and le: "hr_ray_t out \<le> tmax"
  shows "fst (snd (SurfaceList_loop cs r tmin tmax a out best)) = nearest cs r tmin tmax out"
  using P le
proof (induction cs arbitrary: a out best)
  case Nil
  show ?case by simp
next
  case (Cons c cs)
  have IH: "fst (snd (SurfaceList_loop cs r tmin tmax a' out' best')) = nearest cs r tmin tmax out'"
    if "hr_ray_t out' \<le> tmax" for a' out' best'
    by (rule Cons.IH [OF _ that]) (rule Cons.prems(1), simp_all)
  obtain b best' where hb: "Hit c r tmin tmax best = (b, best')"
    by (cases "Hit c r tmin tmax best")
  obtain b0 h where h0: "Hit c r tmin tmax HitRecord_empty = (b0, h)"
    by (cases "Hit c r tmin tmax HitRecord_empty")
  have flag: "b0 = b"
    using Hit_flag [of c r tmin tmax HitRecord_empty best] hb h0 by simp
  show ?case
  proof (cases b)
    case False
    then show ?thesis using hb h0 flag IH [OF Cons.prems(2)] by simp
  next
    case True
    have c: "c \<in> set (c # cs)" by simp
    have hit: "fst (Hit c r tmin tmax best)" using hb True by simp
    have t: "hr_ray_t h = hr_ray_t best'"
      using Cons.prems(1) [OF c hit, of HitRecord_empty] hb h0 by simp
    show ?thesis
    proof (cases "hr_ray_t best' < hr_ray_t out")
      case nearer: True
      then have "hr_ray_t best' < tmax" using Cons.prems(2) by simp
      then have eq: "h = best'" and o: "dot (hr_normal best') (ray_dir r) \<le> 0"
        using Cons.prems(1) [OF c hit, of HitRecord_empty] hb h0 by simp_all
      have "hr_ray_t best' \<le> tmax" using \<open>hr_ray_t best' < tmax\<close> by simp
      from IH [OF this] show ?thesis
        using hb h0 flag True nearer eq by (simp add: copy_best_oriented [OF o])
    next
      case False
      then show ?thesis using hb h0 flag True t IH [OF Cons.prems(2)] by simp
    qed
  qed
qed

text \<open>
  Whenever a surface reports a hit, the parameter it returns does not depend on the
  record it was given; when that parameter is below \<open>tmax\<close>, neither does any other
  field, and the normal does not point along the ray.
\<close>

lemma Hit_filled:
  "fst (Hit c r tmin tmax b) \<Longrightarrow>
     hr_ray_t (snd (Hit c r tmin tmax b')) = hr_ray_t (snd (Hit c r tmin tmax b)) \<and>
     (hr_ray_t (snd (Hit c r tmin tmax b)) < tmax \<longrightarrow>
        snd (Hit c r tmin tmax b') = snd (Hit c r tmin tmax b) \<and>
        dot (hr_normal (snd (Hit c r tmin tmax b))) (ray_dir r) \<le> 0)"
proof (induction c arbitrary: b b')
  case (Sphere s)
  then show ?case
    using Sphere_Hit_filled(1) [of s r tmin tmax b b'] Sphere_Hit_filled(2) [of s r tmin tmax b]
    by simp
next
  case (Triangle t)
  then show ?case
    using Triangle_Hit_filled(1) [of t r tmin tmax b b']
      Triangle_Hit_filled(2) [of t r tmin tmax b]
    by simp
next
  case (SurfaceList cs m)
  have "fst (snd (SurfaceList_loop cs r tmin tmax False (x\<lparr>hr_ray_t := tmax\<rparr>) HitRecord_empty))
          = nearest cs r tmin tmax (x\<lparr>hr_ray_t := tmax\<rparr>)" for x
  proof (rule loop_nearest)
    show "hr_ray_t (x\<lparr>hr_ray_t := tmax\<rparr>) \<le> tmax" by simp
  next
    fix c b b'
    assume "c \<in> set cs" and "fst (Hit c r tmin tmax b)"
    then show "hr_ray_t (snd (Hit c r tmin tmax b')) = hr_ray_t (snd (Hit c r tmin tmax b)) \<and>
      (hr_ray_t (snd (Hit c r tmin tmax b)) < tmax \<longrightarrow>
         snd (Hit c r tmin tmax b') = snd (Hit c r tmin tmax b) \<and>
         dot (hr_normal (snd (Hit c r tmin tmax b))) (ray_dir r) \<le> 0)"
      by (rule SurfaceList.IH)
  qed
  then have out: "snd (Hit (SurfaceList cs m) r tmin tmax x) =
               nearest cs r tmin tmax (x\<lparr>hr_ray_t := tmax\<rparr>)" for x
    by (simp add: split_beta)
  have same: "hr_ray_t (b'\<lparr>hr_ray_t := tmax\<rparr>) = hr_ray_t (b\<lparr>hr_ray_t := tmax\<rparr>)"
    by simp
  from nearest_cases [OF same, of cs r tmin tmax]
  show ?case
  proof
    assume "nearest cs r tmin tmax (b\<lparr>hr_ray_t := tmax\<rparr>) = b\<lparr>hr_ray_t := tmax\<rparr> \<and>
            nearest cs r tmin tmax (b'\<lparr>hr_ray_t := tmax\<rparr>) = b'\<lparr>hr_ray_t := tmax\<rparr>"
    then show ?thesis unfolding out by simp
  next
    assume *: "nearest cs r tmin tmax (b'\<lparr>hr_ray_t := tmax\<rparr>)
                 = nearest cs r tmin tmax (b\<lparr>hr_ray_t := tmax\<rparr>) \<and>
          hr_ray_t (nearest cs r tmin tmax (b\<lparr>hr_ray_t := tmax\<rparr>))
            < hr_ray_t (b\<lparr>hr_ray_t := tmax\<rparr>) \<and>
          (\<exists>c\<in>set cs. Hit c r tmin tmax HitRecord_empty
                          = (True, nearest cs r tmin tmax (b\<lparr>hr_ray_t := tmax\<rparr>)))"
    then obtain c where c: "c \<in> set cs"
      and hc: "Hit c r tmin tmax HitRecord_empty
                 = (True, nearest cs r tmin tmax (b\<lparr>hr_ray_t := tmax\<rparr>))"
      by blast
    have lt: "hr_ray_t (nearest cs r tmin tmax (b\<lparr>hr_ray_t := tmax\<rparr>)) < tmax"
      using * by simp
    have "dot (hr_normal (nearest cs r tmin tmax (b\<lparr>hr_ray_t := tmax\<rparr>))) (ray_dir r) \<le> 0"
      using SurfaceList.IH [OF c, of HitRecord_empty HitRecord_empty] hc lt by simp
    then show ?thesis unfolding out using * by simp
  qed
qed

text \<open>The local record \<^verbatim>\<open>bestRecord\<close> is only a buffer: what it holds when the loop starts
  does not reach the caller's record.\<close>

lemma loop_best_irrelevant:
  assumes "hr_ray_t out \<le> tmax"
  shows "fst (snd (SurfaceList_loop cs r tmin tmax a out best)) =
         fst (snd (SurfaceList_loop cs r tmin tmax a out best'))"
proof -
  have "fst (snd (SurfaceList_loop cs r tmin tmax a out x)) = nearest cs r tmin tmax out" for x
  proof (rule loop_nearest [OF _ assms])
    fix c b b'
    assume "fst (Hit c r tmin tmax b)"
    then show "hr_ray_t (snd (Hit c r tmin tmax b')) = hr_ray_t (snd (Hit c r tmin tmax b)) \<and>
      (hr_ray_t (snd (Hit c r tmin tmax b)) < tmax \<longrightarrow>
         snd (Hit c r tmin tmax b') = snd (Hit c r tmin tmax b) \<and>
         dot (hr_normal (snd (Hit c r tmin tmax b))) (ray_dir r) \<le> 0)"
      by (rule Hit_filled)
  qed
  then show ?thesis by simp
qed

text \<open>The list returns the flag "some child hits" and the record that \<open>nearest\<close> computes
  from the caller's record with \<open>tmax\<close> written into it.\<close>

lemma SurfaceList_Hit_nearest:
  "Hit (SurfaceList cs m) r tmin tmax hr =
     ((\<exists>c\<in>set cs. fst (Hit c r tmin tmax HitRecord_empty)),
      nearest cs r tmin tmax (hr\<lparr>hr_ray_t := tmax\<rparr>))"
proof -
  have "fst (snd (SurfaceList_loop cs r tmin tmax False (hr\<lparr>hr_ray_t := tmax\<rparr>) HitRecord_empty))
          = nearest cs r tmin tmax (hr\<lparr>hr_ray_t := tmax\<rparr>)"
  proof (rule loop_nearest)
    show "hr_ray_t (hr\<lparr>hr_ray_t := tmax\<rparr>) \<le> tmax" by simp
  next
    fix c b b'
    assume "fst (Hit c r tmin tmax b)"
    then show "hr_ray_t (snd (Hit c r tmin tmax b')) = hr_ray_t (snd (Hit c r tmin tmax b)) \<and>
      (hr_ray_t (snd (Hit c r tmin tmax b)) < tmax \<longrightarrow>
         snd (Hit c r tmin tmax b') = snd (Hit c r tmin tmax b) \<and>
         dot (hr_normal (snd (Hit c r tmin tmax b))) (ray_dir r) \<le> 0)"
      by (rule Hit_filled)
  qed
  then have "snd (Hit (SurfaceList cs m) r tmin tmax hr)
               = nearest cs r tmin tmax (hr\<lparr>hr_ray_t := tmax\<rparr>)"
    by (simp add: split_beta)
  then show ?thesis
    using SurfaceList_flag [of cs m r tmin tmax hr HitRecord_empty] by (simp add: prod_eq_iff)
qed

text \<open>
  What \<open>nearest\<close> returns: the record it started from, when no child hits below its
  parameter; otherwise the record of a child that hits strictly below every hit before
  it in the list and at or below every hit after it.
\<close>

lemma nearest_first_minimum:
  "(nearest cs r tmin tmax cur = cur \<and>
    (\<forall>c\<in>set cs. fst (Hit c r tmin tmax HitRecord_empty) \<longrightarrow>
       hr_ray_t cur \<le> hr_ray_t (snd (Hit c r tmin tmax HitRecord_empty)))) \<or>
   (\<exists>pre c post. cs = pre @ c # post \<and>
      Hit c r tmin tmax HitRecord_empty = (True, nearest cs r tmin tmax cur) \<and>
      hr_ray_t (nearest cs r tmin tmax cur) < hr_ray_t cur \<and>
      (\<forall>x\<in>set pre. fst (Hit x r tmin tmax HitRecord_empty) \<longrightarrow>
         hr_ray_t (nearest cs r tmin tmax cur) < hr_ray_t (snd (Hit x r tmin tmax HitRecord_empty))) \<and>
      (\<forall>x\<in>set post. fst (Hit x r tmin tmax HitRecord_empty) \<longrightarrow>
         hr_ray_t (nearest cs r tmin tmax cur) \<le> hr_ray_t (snd (Hit x r tmin tmax HitRecord_empty))))"
proof (induction cs arbitrary: cur)
  case Nil
  show ?case by simp
next
  case (Cons c0 cs)
  let ?hit = "\<lambda>x. fst (Hit x r tmin tmax HitRecord_empty)"
  let ?t = "\<lambda>x. hr_ray_t (snd (Hit x r tmin tmax HitRecord_empty))"
  obtain b h where h: "Hit c0 r tmin tmax HitRecord_empty = (b, h)"
    by (cases "Hit c0 r tmin tmax HitRecord_empty")
  show ?case
  proof (cases "b \<and> hr_ray_t h < hr_ray_t cur")
    case True
    then have n: "nearest (c0 # cs) r tmin tmax cur = nearest cs r tmin tmax h"
      using h by simp
    from Cons.IH [of h] show ?thesis
    proof
      assume A: "nearest cs r tmin tmax h = h \<and> (\<forall>c\<in>set cs. ?hit c \<longrightarrow> hr_ray_t h \<le> ?t c)"
      have "c0 # cs = [] @ c0 # cs" by simp
      moreover have "Hit c0 r tmin tmax HitRecord_empty = (True, nearest (c0 # cs) r tmin tmax cur)"
        using A n h True by simp
      moreover have "hr_ray_t (nearest (c0 # cs) r tmin tmax cur) < hr_ray_t cur"
        using A n True by simp
      moreover have "\<forall>x\<in>set cs. ?hit x \<longrightarrow> hr_ray_t (nearest (c0 # cs) r tmin tmax cur) \<le> ?t x"
        using A n by simp
      ultimately show ?thesis by (intro disjI2 exI [of _ "[]"] exI [of _ c0] exI [of _ cs]) simp
    next
      assume "\<exists>pre c post. cs = pre @ c # post \<and>
        Hit c r tmin tmax HitRecord_empty = (True, nearest cs r tmin tmax h) \<and>
        hr_ray_t (nearest cs r tmin tmax h) < hr_ray_t h \<and>
        (\<forall>x\<in>set pre. ?hit x \<longrightarrow> hr_ray_t (nearest cs r tmin tmax h) < ?t x) \<and>
        (\<forall>x\<in>set post. ?hit x \<longrightarrow> hr_ray_t (nearest cs r tmin tmax h) \<le> ?t x)"
      then obtain pre c post where B: "cs = pre @ c # post"
        "Hit c r tmin tmax HitRecord_empty = (True, nearest cs r tmin tmax h)"
        "hr_ray_t (nearest cs r tmin tmax h) < hr_ray_t h"
        "\<forall>x\<in>set pre. ?hit x \<longrightarrow> hr_ray_t (nearest cs r tmin tmax h) < ?t x"
        "\<forall>x\<in>set post. ?hit x \<longrightarrow> hr_ray_t (nearest cs r tmin tmax h) \<le> ?t x"
        by blast
      have "c0 # cs = (c0 # pre) @ c # post" using B(1) by simp
      moreover have "\<forall>x\<in>set (c0 # pre). ?hit x \<longrightarrow> hr_ray_t (nearest cs r tmin tmax h) < ?t x"
        using B(3) B(4) h by simp
      moreover have "hr_ray_t (nearest cs r tmin tmax h) < hr_ray_t cur"
        using B(3) True by simp
      ultimately show ?thesis
        unfolding n using B(2) B(5)
        by (intro disjI2 exI [of _ "c0 # pre"] exI [of _ c] exI [of _ post]) blast
    qed
  next
    case False
    then have n: "nearest (c0 # cs) r tmin tmax cur = nearest cs r tmin tmax cur"
      using h by (cases b) simp_all
    have c0: "?hit c0 \<longrightarrow> hr_ray_t cur \<le> ?t c0" using False h by auto
    from Cons.IH [of cur] show ?thesis
    proof
      assume "nearest cs r tmin tmax cur = cur \<and> (\<forall>c\<in>set cs. ?hit c \<longrightarrow> hr_ray_t cur \<le> ?t c)"
      then show ?thesis unfolding n using c0 by simp
    next
      assume "\<exists>pre c post. cs = pre @ c # post \<and>
        Hit c r tmin tmax HitRecord_empty = (True, nearest cs r tmin tmax cur) \<and>
        hr_ray_t (nearest cs r tmin tmax cur) < hr_ray_t cur \<and>
        (\<forall>x\<in>set pre. ?hit x \<longrightarrow> hr_ray_t (nearest cs r tmin tmax cur) < ?t x) \<and>
        (\<forall>x\<in>set post. ?hit x \<longrightarrow> hr_ray_t (nearest cs r tmin tmax cur) \<le> ?t x)"
      then obtain pre c post where B: "cs = pre @ c # post"
        "Hit c r tmin tmax HitRecord_empty = (True, nearest cs r tmin tmax cur)"
        "hr_ray_t (nearest cs r tmin tmax cur) < hr_ray_t cur"
        "\<forall>x\<in>set pre. ?hit x \<longrightarrow> hr_ray_t (nearest cs r tmin tmax cur) < ?t x"
        "\<forall>x\<in>set post. ?hit x \<longrightarrow> hr_ray_t (nearest cs r tmin tmax cur) \<le> ?t x"
        by blast
      have "c0 # cs = (c0 # pre) @ c # post" using B(1) by simp
      moreover have "\<forall>x\<in>set (c0 # pre). ?hit x \<longrightarrow> hr_ray_t (nearest cs r tmin tmax cur) < ?t x"
        using B(3) B(4) c0 by auto
      ultimately show ?thesis
        unfolding n using B(2) B(3) B(5)
        by (intro disjI2 exI [of _ "c0 # pre"] exI [of _ c] exI [of _ post]) blast
    qed
  qed
qed

text \<open>
  The positive part of claim C1, for every list (nested lists included): when some child
  hits with a parameter strictly below \<open>tmax\<close>, the list returns true and the record of
  the child with the smallest parameter, the first one in list order among equals.
\<close>

lemma SurfaceList_Hit_reflects_nearest:
  assumes "c \<in> set cs" and "Hit c r tmin tmax HitRecord_empty = (True, h)"
    and "hr_ray_t h < tmax"
  shows "\<exists>pre c' post. cs = pre @ c' # post \<and>
      Hit c' r tmin tmax HitRecord_empty = (True, snd (Hit (SurfaceList cs m) r tmin tmax hr)) \<and>
      fst (Hit (SurfaceList cs m) r tmin tmax hr) \<and>
      hr_ray_t (snd (Hit (SurfaceList cs m) r tmin tmax hr)) < tmax \<and>
      (\<forall>x\<in>set pre. fst (Hit x r tmin tmax HitRecord_empty) \<longrightarrow>
         hr_ray_t (snd (Hit (SurfaceList cs m) r tmin tmax hr))
           < hr_ray_t (snd (Hit x r tmin tmax HitRecord_empty))) \<and>
      (\<forall>x\<in>set post. fst (Hit x r tmin tmax HitRecord_empty) \<longrightarrow>
         hr_ray_t (snd (Hit (SurfaceList cs m) r tmin tmax hr))
           \<le> hr_ray_t (snd (Hit x r tmin tmax HitRecord_empty)))"
proof -
  let ?cur = "hr\<lparr>hr_ray_t := tmax\<rparr>"
  have hit: "fst (Hit c r tmin tmax HitRecord_empty)"
    and t: "hr_ray_t (snd (Hit c r tmin tmax HitRecord_empty)) < tmax"
    using assms(2) assms(3) by simp_all
  have flag: "fst (Hit (SurfaceList cs m) r tmin tmax hr)"
    unfolding SurfaceList_Hit_nearest using assms(1) hit by auto
  have out: "snd (Hit (SurfaceList cs m) r tmin tmax hr) = nearest cs r tmin tmax ?cur"
    unfolding SurfaceList_Hit_nearest by simp
  have "\<not> (\<forall>c\<in>set cs. fst (Hit c r tmin tmax HitRecord_empty) \<longrightarrow>
       hr_ray_t ?cur \<le> hr_ray_t (snd (Hit c r tmin tmax HitRecord_empty)))"
    using assms(1) hit t by auto
  with nearest_first_minimum [of cs r tmin tmax ?cur]
  have "\<exists>pre c' post. cs = pre @ c' # post \<and>
      Hit c' r tmin tmax HitRecord_empty = (True, nearest cs r tmin tmax ?cur) \<and>
      hr_ray_t (nearest cs r tmin tmax ?cur) < hr_ray_t ?cur \<and>
      (\<forall>x\<in>set pre. fst (Hit x r tmin tmax HitRecord_empty) \<longrightarrow>
         hr_ray_t (nearest cs r tmin tmax ?cur)
           < hr_ray_t (snd (Hit x r tmin tmax HitRecord_empty))) \<and>
      (\<forall>x\<in>set post. fst (Hit x r tmin tmax HitRecord_empty) \<longrightarrow>
         hr_ray_t (nearest cs r tmin tmax ?cur)
           \<le> hr_ray_t (snd (Hit x r tmin tmax HitRecord_empty)))"
    by blast
  then show ?thesis unfolding out using flag by (simp del: Hit.simps)
qed

subsection \<open>The normal of a hit\<close>

lemma SetNormal_squaredNorm: "squaredNorm (hr_normal (SetNormal r n hr)) = squaredNorm n"
  by (simp add: SetNormal_def squaredNorm_smul)

lemma Sphere_Hit_unit:
  assumes "fst (Sphere_Hit s r tmin tmax b)" and "sph_radius s \<noteq> 0"
    and "dot (ray_dir r) (ray_dir r) \<noteq> 0"
  shows "squaredNorm (hr_normal (snd (Sphere_Hit s r tmin tmax b))) = 1"
proof -
  have d: "0 \<le> discriminant s r"
    using assms(1) by (auto simp add: Sphere_Hit_def split: if_splits)
  have "wantedIntersect s r = tHit1 s r \<or> wantedIntersect s r = tHit2 s r"
    by (auto simp add: wantedIntersect_def min_def)
  then have "squaredNorm (vsub (At r (wantedIntersect s r)) (sph_center s))
               = sph_radius s * sph_radius s"
    using roots_on_sphere [OF d assms(3)] by auto
  moreover have "0 < sph_radius s * sph_radius s"
    using assms(2) not_real_square_gt_zero [of "sph_radius s"] by blast
  ultimately have "squaredNorm (normalized (vsub (At r (wantedIntersect s r)) (sph_center s))) = 1"
    by (simp add: squaredNorm_normalized)
  then show ?thesis
    using assms(1)
    by (auto simp add: Sphere_Hit_def Let_def SetNormal_squaredNorm split: if_splits)
qed

lemma Triangle_Hit_unit:
  assumes "fst (Triangle_Hit t r tmin tmax b)" and "squaredNorm (tri_normal t) = 1"
  shows "squaredNorm (hr_normal (snd (Triangle_Hit t r tmin tmax b))) = 1"
  using assms
  by (auto simp add: Triangle_Hit_def Let_def SetNormal_squaredNorm
        split: if_splits option.splits prod.splits)

lemma Hit_unit:
  assumes "dot (ray_dir r) (ray_dir r) \<noteq> 0"
  shows "well_formed c \<Longrightarrow> fst (Hit c r tmin tmax b) \<Longrightarrow>
         hr_ray_t (snd (Hit c r tmin tmax b)) < tmax \<Longrightarrow>
         squaredNorm (hr_normal (snd (Hit c r tmin tmax b))) = 1"
proof (induction c arbitrary: b)
  case (Sphere s)
  then show ?case using Sphere_Hit_unit [of s r tmin tmax b] assms by simp
next
  case (Triangle t)
  then show ?case using Triangle_Hit_unit [of t r tmin tmax b] by simp
next
  case (SurfaceList cs m)
  let ?cur = "b\<lparr>hr_ray_t := tmax\<rparr>"
  have out: "snd (Hit (SurfaceList cs m) r tmin tmax b) = nearest cs r tmin tmax ?cur"
    unfolding SurfaceList_Hit_nearest by simp
  have lt: "hr_ray_t (nearest cs r tmin tmax ?cur) < tmax"
    using SurfaceList.prems(3) unfolding out .
  then have "nearest cs r tmin tmax ?cur \<noteq> ?cur" by auto
  with nearest_cases [of ?cur ?cur cs r tmin tmax]
  obtain c where c: "c \<in> set cs"
    and hc: "Hit c r tmin tmax HitRecord_empty = (True, nearest cs r tmin tmax ?cur)"
    by auto
  have wf: "well_formed c" using SurfaceList.prems(1) c by (simp add: list_all_iff)
  have "squaredNorm (hr_normal (snd (Hit c r tmin tmax HitRecord_empty))) = 1"
    by (rule SurfaceList.IH [OF c wf]) (simp_all add: hc lt)
  then show ?case unfolding out by (simp add: hc)
qed

text \<open>
  The positive part of claim C4: for a well-formed surface and a ray of non-zero
  direction, a hit with a parameter strictly below \<open>tmax\<close> leaves a normal of length 1
  that opposes the ray. For a sphere or a triangle the same holds at \<open>tmax\<close> too.
\<close>

lemma Hit_normal:
  assumes "dot (ray_dir r) (ray_dir r) \<noteq> 0" and "well_formed c"
    and "fst (Hit c r tmin tmax b)" and "hr_ray_t (snd (Hit c r tmin tmax b)) < tmax"
  shows "norm3 (hr_normal (snd (Hit c r tmin tmax b))) = 1"
    and "0 \<le> dot (hr_normal (snd (Hit c r tmin tmax b))) (smul (-1) (ray_dir r))"
proof -
  show "norm3 (hr_normal (snd (Hit c r tmin tmax b))) = 1"
    using Hit_unit [OF assms] by (simp add: norm3_def)
  have "dot (hr_normal (snd (Hit c r tmin tmax b))) (ray_dir r) \<le> 0"
    using Hit_filled [OF assms(3), of b] assms(4) by simp
  then show "0 \<le> dot (hr_normal (snd (Hit c r tmin tmax b))) (smul (-1) (ray_dir r))"
    by (simp add: dot_commute [of _ "smul (-1) (ray_dir r)"] dot_neg_left dot_commute)
qed

section \<open>The shading evaluator and the surface pointer\<close>

text \<open>A sphere or a triangle that reports a hit stores itself in the record.\<close>

lemma Sphere_Hit_surface:
  "fst (Sphere_Hit s r tmin tmax b) \<Longrightarrow>
   hr_surface (snd (Sphere_Hit s r tmin tmax b)) = Some (Sphere s)"
  by (auto simp add: Sphere_Hit_def Let_def split: if_splits)

lemma Triangle_Hit_surface:
  "fst (Triangle_Hit t r tmin tmax b) \<Longrightarrow>
   hr_surface (snd (Triangle_Hit t r tmin tmax b)) = Some (Triangle t)"
  by (auto simp add: Triangle_Hit_def Let_def split: if_splits option.splits prod.splits)

text \<open>Every hit with a parameter strictly below \<open>tmax\<close> carries a surface.\<close>

lemma Hit_surface:
  "fst (Hit c r tmin tmax b) \<Longrightarrow> hr_ray_t (snd (Hit c r tmin tmax b)) < tmax \<Longrightarrow>
   hr_surface (snd (Hit c r tmin tmax b)) \<noteq> None"
proof (induction c arbitrary: b)
  case (Sphere s)
  then show ?case using Sphere_Hit_surface [of s r tmin tmax b] by simp
next
  case (Triangle t)
  then show ?case using Triangle_Hit_surface [of t r tmin tmax b] by simp
next
  case (SurfaceList cs m)
  let ?cur = "b\<lparr>hr_ray_t := tmax\<rparr>"
  have out: "snd (Hit (SurfaceList cs m) r tmin tmax b) = nearest cs r tmin tmax ?cur"
    unfolding SurfaceList_Hit_nearest by simp
  have lt: "hr_ray_t (nearest cs r tmin tmax ?cur) < tmax"
    using SurfaceList.prems(2) unfolding out .
  then have "nearest cs r tmin tmax ?cur \<noteq> ?cur" by auto
  with nearest_cases [of ?cur ?cur cs r tmin tmax]
  obtain c where c: "c \<in> set cs"
    and hc: "Hit c r tmin tmax HitRecord_empty = (True, nearest cs r tmin tmax ?cur)"
    by auto
  have "hr_surface (snd (Hit c r tmin tmax HitRecord_empty)) \<noteq> None"
    by (rule SurfaceList.IH [OF c]) (simp_all add: hc lt)
  then show ?case unfolding out by (simp add: hc)
qed

text \<open>
  What holds of \<^verbatim>\<open>RayColor\<close> on the code: a miss gives black, and a hit with a parameter
  strictly below \<^verbatim>\<open>kInfinity\<close> gives the sum over the lights when the material is
  compatible and the diagnostic colour \<open>(1, 0, 0)\<close> when it is not; the call fails in
  neither case.
\<close>

lemma RayColor_below_kInfinity:
  "(\<not> fst (Hit scene r kEpsilon kInfinity HitRecord_empty) \<longrightarrow>
      RayColor kEpsilon kInfinity r scene lights = Inr (False, Vec3r 0 0 0)) \<and>
   (Hit scene r kEpsilon kInfinity HitRecord_empty = (True, hr) \<and> hr_ray_t hr < kInfinity \<and>
    compatible_material hr = Some m \<longrightarrow>
      RayColor kEpsilon kInfinity r scene lights =
        Inr (True, vsum (map (\<lambda>l. Illuminate l hr (smul (-1) (ray_dir r))) lights))) \<and>
   (Hit scene r kEpsilon kInfinity HitRecord_empty = (True, hr) \<and> hr_ray_t hr < kInfinity \<and>
    compatible_material hr = None \<longrightarrow>
      RayColor kEpsilon kInfinity r scene lights = Inr (True, Vec3r 1 0 0))"
proof -
  have "RayColor kEpsilon kInfinity r scene lights = Inr (True, Vec3r 1 0 0)"
    if h: "Hit scene r kEpsilon kInfinity HitRecord_empty = (True, hr)"
      and lt: "hr_ray_t hr < kInfinity" and n: "compatible_material hr = None"
  proof -
    have "hr_surface hr \<noteq> None"
      using Hit_surface [of scene r kEpsilon kInfinity HitRecord_empty] h lt by simp
    then obtain surface where "hr_surface hr = Some surface" by blast
    then show ?thesis using RayColor_incompatible [OF h _ n] by blast
  qed
  then show ?thesis
    using RayColor_miss [of scene r kEpsilon kInfinity lights]
      RayColor_compatible [of scene r kEpsilon kInfinity hr m lights]
    by blast
qed

text \<open>
  Whatever finite value \<^verbatim>\<open>kInfinity\<close> has, a sphere whose near side lies exactly at that
  distance makes the scene report a hit with a null surface pointer, which \<^verbatim>\<open>RayColor\<close>
  dereferences.
\<close>

lemma RayColor_null_at_kInfinity:
  assumes "kEpsilon \<le> kInfinity"
  shows "RayColor kEpsilon kInfinity ex_ray
           (SurfaceList [Sphere \<lparr>sph_center = Vec3r 0 0 (kInfinity + 1), sph_radius = 1,
                                  sph_material = mo\<rparr>] None) lights
         = Inl NullSurface"
proof -
  let ?s = "\<lparr>sph_center = Vec3r 0 0 (kInfinity + 1), sph_radius = 1, sph_material = mo\<rparr>"
  have d: "discriminant ?s ex_ray = 1"
    by (simp add: discriminant_def ex_ray_def Ray_def norm3_def squaredNorm_def algebra_simps)
  have t: "tHit1 ?s ex_ray = kInfinity" "tHit2 ?s ex_ray = kInfinity + 2"
    by (simp_all add: tHit1_def tHit2_def d) (simp_all add: ex_ray_def Ray_def norm3_def squaredNorm_def)
  have w: "wantedIntersect ?s ex_ray = kInfinity"
    by (simp add: wantedIntersect_def t)
  have "fst (Sphere_Hit ?s ex_ray kEpsilon kInfinity b)"
    and "hr_ray_t (snd (Sphere_Hit ?s ex_ray kEpsilon kInfinity b)) = kInfinity" for b
    using assms by (simp_all add: Sphere_Hit_def d w Let_def SetNormal_def)
  then have "Hit (SurfaceList [Sphere ?s] None) ex_ray kEpsilon kInfinity HitRecord_empty
               = (True, HitRecord_empty\<lparr>hr_ray_t := kInfinity\<rparr>)"
    by (simp add: split_beta prod_eq_iff)
  then show ?thesis
    using RayColor_null_surface [of "SurfaceList [Sphere ?s] None" ex_ray kEpsilon kInfinity
        "HitRecord_empty\<lparr>hr_ray_t := kInfinity\<rparr>" lights]
    by (simp add: HitRecord_empty_def)
qed


end
